theory Spec2Isabelle
  imports Main "HOL-Library.Char_ord" "HOL-Library.List_Lexorder" "HOL-Library.Product_Lexorder"
    "HOL-Library.Multiset"
begin

section \<open>Data model of the scheduler module (src/src/scheduler.py)\<close>

text \<open>
  Times are whole seconds on the scheduler's clock (Python \<open>datetime\<close> values, read
  through \<open>datetime.now()\<close>); durations are whole seconds (\<open>timedelta\<close>).
  A Python \<open>Optional[str]\<close> is a \<open>string option\<close>, a \<open>dict\<close> read from the YAML
  configuration or built by the command line is an association list with distinct keys.
\<close>

type_synonym time = int

type_synonym 'v dict = "(string \<times> 'v) list"

text \<open>The exceptions (all instances of Python's \<open>Exception\<close>) that the module meets.\<close>

datatype exception =
    TypeError string
  | ValueError string
  | AttributeError string
  | JobLookupError string
  | ConflictingIdError string
  | FetchError string

datatype level = INFO | WARNING | ERROR

type_synonym log_entry = "level \<times> string"

text \<open>
  The trigger objects handed to the scheduling library. The interval trigger carries the
  five keyword arguments of its constructor, the cron trigger the field expressions it
  was built from.
\<close>

datatype trigger =
    IntervalTrigger (weeks: int) (days: int) (hours: int) (minutes: int) (seconds: int)
  | CronTrigger "string dict"

subsection \<open>The library's interval trigger\<close>

definition interval_units :: "string list" where
  "interval_units = [''seconds'', ''minutes'', ''hours'', ''days'', ''weeks'']"

definition kwarg :: "int dict \<Rightarrow> string \<Rightarrow> int" where
  \<comment> \<open>a keyword argument with default \<open>0\<close>\<close>
  "kwarg kw k = (case map_of kw k of None \<Rightarrow> 0 | Some v \<Rightarrow> v)"

definition new_IntervalTrigger :: "int dict \<Rightarrow> exception + trigger" where
  \<comment> \<open>Modelled from the spec: the constructor \<open>IntervalTrigger(**interval)\<close> of the
      scheduling library (apscheduler, not under src/). ``Accepted units: seconds,
      minutes, hours, days, weeks''; any other keyword is a \<open>TypeError\<close>, an absent
      unit is \<open>0\<close>.\<close>
  "new_IntervalTrigger kw =
     (case filter (\<lambda>k. k \<notin> set interval_units) (map fst kw) of
        k # _ \<Rightarrow> Inl (TypeError k)
      | [] \<Rightarrow> Inr (IntervalTrigger (kwarg kw ''weeks'') (kwarg kw ''days'') (kwarg kw ''hours'')
                     (kwarg kw ''minutes'') (kwarg kw ''seconds'')))"

fun interval_length :: "trigger \<Rightarrow> int" where
  \<comment> \<open>\<open>timedelta(weeks=, days=, hours=, minutes=, seconds=)\<close> in seconds\<close>
  "interval_length (IntervalTrigger w d h m s) = w * 604800 + d * 86400 + h * 3600 + m * 60 + s"
| "interval_length (CronTrigger kw) = 0"

fun get_next_fire_time :: "(string dict \<Rightarrow> time \<Rightarrow> nat) \<Rightarrow> trigger \<Rightarrow> time \<Rightarrow> time" where
  \<comment> \<open>Modelled from the spec: the Trigger Resolver \<open>resolve(schedule, fromTime)\<close>, which in
      the source is the library's trigger object. ``Interval schedules:
      \<open>nextFireTime = fromTime + duration(unit, value)\<close>''; for a cron schedule the
      ``resolver finds the earliest timestamp strictly after \<open>fromTime\<close> matching all
      five fields'': the calendar arithmetic is the parameter \<open>cron_wait\<close>, the number of
      seconds from \<open>fromTime + 1\<close> to that timestamp.\<close>
  "get_next_fire_time cron_wait (IntervalTrigger w d h m s) fromTime =
     fromTime + interval_length (IntervalTrigger w d h m s)"
| "get_next_fire_time cron_wait (CronTrigger kw) fromTime = fromTime + 1 + int (cron_wait kw fromTime)"

definition duration :: "string \<Rightarrow> int \<Rightarrow> int" where
  \<comment> \<open>the spec's \<open>duration(unit, value)\<close>, in seconds\<close>
  "duration unit v =
     (if unit = ''seconds'' then v
      else if unit = ''minutes'' then 60 * v
      else if unit = ''hours'' then 60 * 60 * v
      else if unit = ''days'' then 24 * 60 * 60 * v
      else if unit = ''weeks'' then 7 * 24 * 60 * 60 * v
      else 0)"

subsection \<open>\<open>_parse_schedule\<close>\<close>

definition py_not :: "'a list option \<Rightarrow> bool" where
  \<comment> \<open>Python's \<open>not x\<close> for an optional dict or string: \<open>None\<close> and the empty value are falsy\<close>
  "py_not x = (case x of None \<Rightarrow> True | Some v \<Rightarrow> v = [])"

definition cron_fields :: "string list" where
  "cron_fields = [''minute'', ''hour'', ''day'', ''month'', ''day_of_week'']"

definition new_CronTrigger :: "(string \<Rightarrow> string \<Rightarrow> bool) \<Rightarrow> string dict \<Rightarrow> exception + trigger" where
  \<comment> \<open>Modelled from the spec: the constructor \<open>CronTrigger(**cron)\<close> of the scheduling
      library (apscheduler, not under src/). ``Five fields (minute, hour, day-of-month,
      month, day-of-week), each either \<open>*\<close> or an explicit value/step expression''; any
      other keyword is a \<open>TypeError\<close>, a field whose expression the library does not
      accept is a \<open>ValueError\<close>. The grammar of the expressions is the parameter
      \<open>field_ok\<close>.\<close>
  "new_CronTrigger field_ok kw =
     (case filter (\<lambda>k. k \<notin> set cron_fields) (map fst kw) of
        k # _ \<Rightarrow> Inl (TypeError k)
      | [] \<Rightarrow>
          (case filter (\<lambda>(k, v). \<not> field_ok k v) kw of
             (k, v) # _ \<Rightarrow> Inl (ValueError k)
           | [] \<Rightarrow> Inr (CronTrigger kw)))"

definition priv_parse_schedule ::
  "(string \<Rightarrow> string \<Rightarrow> bool) \<Rightarrow> string \<Rightarrow> int dict option \<Rightarrow> string dict option
     \<Rightarrow> (exception + trigger) \<times> log_entry list" where
  \<comment> \<open>\<open>YouTubeScraperScheduler._parse_schedule\<close>; the second component is what it logs\<close>
  "priv_parse_schedule field_ok schedule_type interval cron =
     (if schedule_type = ''interval'' then
        (new_IntervalTrigger (if py_not interval then [(''days'', 1)] else the interval), [])
      else if schedule_type = ''cron'' then
        (new_CronTrigger field_ok (if py_not cron then [(''hour'', ''0''), (''minute'', ''0'')] else the cron), [])
      else
        (new_IntervalTrigger [(''days'', 1)],
         [(ERROR, ''Unknown schedule type: '' @ schedule_type)]))"

section \<open>The job store and the scheduling library\<close>

text \<open>
  A job as the scheduling library stores it: the identity, the bound method of the
  scheduler object that it calls (\<open>func\<close>), the positional arguments
  \<open>[target, include_comments]\<close>, the display name, the trigger, the next fire time and
  the state.
\<close>

datatype job_func = RunChannelScrape | RunVideoScrape | RunPlaylistScrape | RunSearchScrape

datatype job_state = Active | Paused

record job =
  jobid :: string
  func :: job_func
  args :: "string option \<times> bool"
  name :: string
  trigger :: trigger
  next_run_time :: "time option"
  state :: job_state

text \<open>
  The job defaults that \<open>_setup_scheduler\<close> hands to the library:
  \<open>{'coalesce': False, 'max_instances': 3, 'misfire_grace_time': 3600}\<close>.
\<close>

definition max_instances :: nat where
  "max_instances = 3"

definition misfire_grace_time :: int where
  "misfire_grace_time = 3600"

subsection \<open>Job Store\<close>

definition get_job :: "job list \<Rightarrow> string \<Rightarrow> job option" where
  \<comment> \<open>Modelled from the spec: \<open>get(id) -> JobDescriptor | NotFound\<close> of the Job Store
      (the library's \<open>scheduler.get_job\<close>, not under src/).\<close>
  "get_job js i = find (\<lambda>j. jobid j = i) js"

fun put :: "job \<Rightarrow> job list \<Rightarrow> job list" where
  \<comment> \<open>Modelled from the spec: \<open>put(job)\<close> of the Job Store, ``inserts or replaces a job
      keyed by id''.\<close>
  "put j [] = [j]"
| "put j (x # xs) = (if jobid x = jobid j then j # xs else x # put j xs)"

definition remove :: "string \<Rightarrow> job list \<Rightarrow> bool \<times> job list" where
  \<comment> \<open>Modelled from the spec: \<open>remove(id) -> bool\<close> of the Job Store, ``returns whether a
      job existed and was removed''.\<close>
  "remove i js = (get_job js i \<noteq> None, filter (\<lambda>j. jobid j \<noteq> i) js)"

definition is_due :: "time \<Rightarrow> job \<Rightarrow> bool" where
  "is_due asOf j =
     (state j = Active \<and> (case next_run_time j of None \<Rightarrow> False | Some t \<Rightarrow> t \<le> asOf))"

definition due_key :: "job \<Rightarrow> time \<times> string" where
  "due_key j = (case next_run_time j of None \<Rightarrow> 0 | Some t \<Rightarrow> t, jobid j)"

definition listDue :: "time \<Rightarrow> job list \<Rightarrow> job list" where
  \<comment> \<open>Modelled from the spec: \<open>listDue(asOf)\<close> of the Job Store, ``all Active jobs with
      \<open>nextFireTime <= asOf\<close>, ordered by \<open>nextFireTime\<close> ascending, ties broken by
      \<open>id\<close> ascending''.\<close>
  "listDue asOf js = sort_key due_key (filter (is_due asOf) js)"

definition setState :: "string \<Rightarrow> job_state \<Rightarrow> job list \<Rightarrow> exception + job list" where
  \<comment> \<open>Modelled from the spec: \<open>setState(id, state)\<close> of the Job Store, a targeted
      mutation that fails with NotFound if \<open>id\<close> is absent.\<close>
  "setState i st js =
     (case get_job js i of
        None \<Rightarrow> Inl (JobLookupError i)
      | Some j \<Rightarrow> Inr (put (j\<lparr>state := st\<rparr>) js))"

definition setNextFireTime :: "string \<Rightarrow> time option \<Rightarrow> job list \<Rightarrow> exception + job list" where
  \<comment> \<open>Modelled from the spec: \<open>setNextFireTime(id, time)\<close> of the Job Store, a targeted
      mutation that fails with NotFound if \<open>id\<close> is absent.\<close>
  "setNextFireTime i t js =
     (case get_job js i of
        None \<Rightarrow> Inl (JobLookupError i)
      | Some j \<Rightarrow> Inr (put (j\<lparr>next_run_time := t\<rparr>) js))"

subsection \<open>The library's scheduler object\<close>

definition scheduler_add_job :: "(job \<Rightarrow> bool) \<Rightarrow> job \<Rightarrow> job list \<Rightarrow> exception + job list" where
  \<comment> \<open>Modelled from the spec: \<open>scheduler.add_job(func, trigger=, args=, id=, name=)\<close> of
      the library (not under src/) on a started scheduler, which ``stores Active job''.
      The source calls it without \<open>replace_existing\<close>, so a taken id is a
      \<open>ConflictingIdError\<close>; the job store that \<open>_setup_scheduler\<close> configures keeps jobs
      serialised, and a job it cannot serialise is a \<open>TypeError\<close>. Whether a job can be
      serialised is the parameter \<open>picklable\<close>. A failed call leaves the store as it
      was.\<close>
  "scheduler_add_job picklable j js =
     (if \<not> picklable j then Inl (TypeError ''cannot pickle'')
      else if get_job js (jobid j) \<noteq> None then Inl (ConflictingIdError (jobid j))
      else Inr (js @ [j]))"

definition run_order :: "job \<Rightarrow> nat \<times> time" where
  "run_order j = (case next_run_time j of None \<Rightarrow> (1, 0) | Some t \<Rightarrow> (0, t))"

definition scheduler_get_jobs :: "job list \<Rightarrow> job list" where
  \<comment> \<open>Modelled from the spec: the ``ordered sequence'' of \<open>listJobs()\<close>, which in the
      source is \<open>scheduler.get_jobs()\<close> of the library (not under src/): the stored jobs
      by next run time, the paused ones last.\<close>
  "scheduler_get_jobs js = sort_key run_order js"

definition scheduler_remove_job :: "string \<Rightarrow> job list \<Rightarrow> exception + job list" where
  \<comment> \<open>Modelled from the spec: \<open>scheduler.remove_job(jobid)\<close> of the library; an unknown
      id is the spec's \<open>NotFoundError\<close>, raised to the caller.\<close>
  "scheduler_remove_job i js =
     (case remove i js of
        (True, js') \<Rightarrow> Inr js'
      | (False, js') \<Rightarrow> Inl (JobLookupError i))"

definition scheduler_pause_job :: "string \<Rightarrow> job list \<Rightarrow> exception + job list" where
  \<comment> \<open>Modelled from the spec: \<open>scheduler.pause_job(jobid)\<close> of the library, which ``sets
      state Paused, \<open>nextFireTime = null\<close>''; an unknown id is raised to the caller.\<close>
  "scheduler_pause_job i js =
     (case setState i Paused js of
        Inl e \<Rightarrow> Inl e
      | Inr js' \<Rightarrow> setNextFireTime i None js')"

definition scheduler_resume_job ::
  "(string dict \<Rightarrow> time \<Rightarrow> nat) \<Rightarrow> string \<Rightarrow> time \<Rightarrow> job list \<Rightarrow> exception + job list" where
  \<comment> \<open>Modelled from the spec: \<open>scheduler.resume_job(jobid)\<close> of the library, which ``sets
      state Active, recomputes \<open>nextFireTime = resolve(schedule, now)\<close>''; an unknown id
      is raised to the caller.\<close>
  "scheduler_resume_job cron_wait i now js =
     (case get_job js i of
        None \<Rightarrow> Inl (JobLookupError i)
      | Some j \<Rightarrow>
          (case setState i Active js of
             Inl e \<Rightarrow> Inl e
           | Inr js' \<Rightarrow> setNextFireTime i (Some (get_next_fire_time cron_wait (trigger j) now)) js'))"

subsection \<open>The executor's bound on running instances\<close>

definition submit_job :: "string \<Rightarrow> (string \<Rightarrow> nat) \<Rightarrow> (string \<Rightarrow> nat) option" where
  \<comment> \<open>Modelled from the spec: the in-flight marker of section 5, ``a job id is marked
      in-flight when dispatched and cleared on completion; the tick loop must check this
      marker before dispatching'', with the per-id bound \<open>max_instances\<close> that
      \<open>_setup_scheduler\<close> configures. \<open>None\<close>: the firing is skipped.\<close>
  "submit_job i inflight =
     (if max_instances \<le> inflight i then None else Some (inflight(i := Suc (inflight i))))"

definition job_done :: "string \<Rightarrow> (string \<Rightarrow> nat) \<Rightarrow> (string \<Rightarrow> nat)" where
  \<comment> \<open>Modelled from the spec: the marker is cleared when the firing completes.\<close>
  "job_done i inflight = inflight(i := inflight i - 1)"

section \<open>The scheduler object \<open>YouTubeScraperScheduler\<close>\<close>

text \<open>
  What the module reaches outside itself is a parameter: the four Fetch Operations of
  \<open>YouTubeScraper\<close> (src/src/scraper.py), which read the network and write files (each
  maps the outside world to an outcome, a raised exception or the rendering of its result
  record, and a new world), the calendar arithmetic and the expression grammar of cron
  triggers, whether the job store can serialise a job, and the renderings \<open>strftime\<close>
  and \<open>str(trigger)\<close>.
\<close>

record 'w env =
  run_channel_scrape :: "string option \<Rightarrow> bool \<Rightarrow> 'w \<Rightarrow> (exception + string) \<times> 'w"
  run_video_scrape :: "string option \<Rightarrow> bool \<Rightarrow> 'w \<Rightarrow> (exception + string) \<times> 'w"
  run_playlist_scrape :: "string option \<Rightarrow> bool \<Rightarrow> 'w \<Rightarrow> (exception + string) \<times> 'w"
  run_search_scrape :: "string option \<Rightarrow> bool \<Rightarrow> 'w \<Rightarrow> (exception + string) \<times> 'w"
  cron_wait :: "string dict \<Rightarrow> time \<Rightarrow> nat"
  cron_field_ok :: "string \<Rightarrow> string \<Rightarrow> bool"
  picklable :: "job \<Rightarrow> bool"
  strftime :: "string \<Rightarrow> time \<Rightarrow> string"
  trigger_str :: "trigger \<Rightarrow> string"

text \<open>
  The state the module works on: the job store, the executor's count of running
  instances per job id, the log, the standard output and the outside world.
\<close>

record 'w scheduler =
  jobs :: "job list"
  inflight :: "string \<Rightarrow> nat"
  logged :: "log_entry list"
  stdout :: "string list"
  world :: 'w

definition initial :: "'w \<Rightarrow> 'w scheduler" where
  "initial w = \<lparr>jobs = [], inflight = (\<lambda>i. 0), logged = [], stdout = [], world = w\<rparr>"

definition logger_info :: "string \<Rightarrow> 'w scheduler \<Rightarrow> 'w scheduler" where
  "logger_info msg s = s\<lparr>logged := logged s @ [(INFO, msg)]\<rparr>"

definition logger_warning :: "string \<Rightarrow> 'w scheduler \<Rightarrow> 'w scheduler" where
  "logger_warning msg s = s\<lparr>logged := logged s @ [(WARNING, msg)]\<rparr>"

definition logger_error :: "string \<Rightarrow> 'w scheduler \<Rightarrow> 'w scheduler" where
  "logger_error msg s = s\<lparr>logged := logged s @ [(ERROR, msg)]\<rparr>"

definition print :: "string \<Rightarrow> 'w scheduler \<Rightarrow> 'w scheduler" where
  "print line s = s\<lparr>stdout := stdout s @ [line]\<rparr>"

definition py_str :: "string option \<Rightarrow> string" where
  \<comment> \<open>the rendering of an optional string inside an f-string\<close>
  "py_str x = (case x of None \<Rightarrow> ''None'' | Some v \<Rightarrow> v)"

definition quoted :: "string \<Rightarrow> string" where
  "quoted x = [CHR 0x27] @ x @ [CHR 0x27]"

fun str_exception :: "exception \<Rightarrow> string" where
  \<comment> \<open>\<open>str(e)\<close>; the library's lookup and conflict errors are \<open>KeyError\<close>s, whose text is
      the quoted message\<close>
  "str_exception (TypeError m) = m"
| "str_exception (ValueError m) = m"
| "str_exception (AttributeError m) = m"
| "str_exception (JobLookupError m) = quoted (''No job by the id of '' @ m @ '' was found'')"
| "str_exception (ConflictingIdError m) = quoted (''Job identifier ('' @ m @ '') conflicts with an existing job'')"
| "str_exception (FetchError m) = m"

definition replace_spaces :: "string \<Rightarrow> string" where
  \<comment> \<open>\<open>query.replace(' ', '_')\<close>\<close>
  "replace_spaces q = map (\<lambda>c. if c = CHR '' '' then CHR ''_'' else c) q"

subsection \<open>The per-job wrappers\<close>

definition priv_run_channel_scrape ::
  "'w env \<Rightarrow> string option \<Rightarrow> bool \<Rightarrow> 'w scheduler \<Rightarrow> (exception + unit) \<times> 'w scheduler" where
  \<comment> \<open>\<open>_run_channel_scrape\<close>\<close>
  "priv_run_channel_scrape env channel_id include_comments s =
     (let s1 = logger_info (''Running channel scrape for '' @ py_str channel_id) s in
      case run_channel_scrape env channel_id include_comments (world s1) of
        (Inr result, w) \<Rightarrow>
          (Inr (), logger_info (''Channel scrape completed: '' @ result) (s1\<lparr>world := w\<rparr>))
      | (Inl e, w) \<Rightarrow>
          (Inr (), logger_error (''Error in channel scrape for '' @ py_str channel_id @ '': ''
                                  @ str_exception e) (s1\<lparr>world := w\<rparr>)))"

definition priv_run_video_scrape ::
  "'w env \<Rightarrow> string option \<Rightarrow> bool \<Rightarrow> 'w scheduler \<Rightarrow> (exception + unit) \<times> 'w scheduler" where
  \<comment> \<open>\<open>_run_video_scrape\<close>\<close>
  "priv_run_video_scrape env video_id include_comments s =
     (let s1 = logger_info (''Running video scrape for '' @ py_str video_id) s in
      case run_video_scrape env video_id include_comments (world s1) of
        (Inr result, w) \<Rightarrow>
          (Inr (), logger_info (''Video scrape completed: '' @ result) (s1\<lparr>world := w\<rparr>))
      | (Inl e, w) \<Rightarrow>
          (Inr (), logger_error (''Error in video scrape for '' @ py_str video_id @ '': ''
                                  @ str_exception e) (s1\<lparr>world := w\<rparr>)))"

definition priv_run_playlist_scrape ::
  "'w env \<Rightarrow> string option \<Rightarrow> bool \<Rightarrow> 'w scheduler \<Rightarrow> (exception + unit) \<times> 'w scheduler" where
  \<comment> \<open>\<open>_run_playlist_scrape\<close>\<close>
  "priv_run_playlist_scrape env playlist_id include_comments s =
     (let s1 = logger_info (''Running playlist scrape for '' @ py_str playlist_id) s in
      case run_playlist_scrape env playlist_id include_comments (world s1) of
        (Inr result, w) \<Rightarrow>
          (Inr (), logger_info (''Playlist scrape completed: '' @ result) (s1\<lparr>world := w\<rparr>))
      | (Inl e, w) \<Rightarrow>
          (Inr (), logger_error (''Error in playlist scrape for '' @ py_str playlist_id @ '': ''
                                  @ str_exception e) (s1\<lparr>world := w\<rparr>)))"

definition priv_run_search_scrape ::
  "'w env \<Rightarrow> string option \<Rightarrow> bool \<Rightarrow> 'w scheduler \<Rightarrow> (exception + unit) \<times> 'w scheduler" where
  \<comment> \<open>\<open>_run_search_scrape\<close>\<close>
  "priv_run_search_scrape env query include_comments s =
     (let s1 = logger_info (''Running search scrape for '' @ quoted (py_str query)) s in
      case run_search_scrape env query include_comments (world s1) of
        (Inr result, w) \<Rightarrow>
          (Inr (), logger_info (''Search scrape completed: '' @ result) (s1\<lparr>world := w\<rparr>))
      | (Inl e, w) \<Rightarrow>
          (Inr (), logger_error (''Error in search scrape for '' @ quoted (py_str query) @ '': ''
                                  @ str_exception e) (s1\<lparr>world := w\<rparr>)))"

fun call_job_func ::
  "'w env \<Rightarrow> job_func \<Rightarrow> string option \<times> bool \<Rightarrow> 'w scheduler \<Rightarrow> (exception + unit) \<times> 'w scheduler" where
  \<comment> \<open>\<open>job_func(*job_args)\<close>: the stored bound method applied to the stored arguments\<close>
  "call_job_func env RunChannelScrape (target, include_comments) s =
     priv_run_channel_scrape env target include_comments s"
| "call_job_func env RunVideoScrape (target, include_comments) s =
     priv_run_video_scrape env target include_comments s"
| "call_job_func env RunPlaylistScrape (target, include_comments) s =
     priv_run_playlist_scrape env target include_comments s"
| "call_job_func env RunSearchScrape (target, include_comments) s =
     priv_run_search_scrape env target include_comments s"

subsection \<open>Adding jobs\<close>

definition new_job ::
  "'w env \<Rightarrow> job_func \<Rightarrow> trigger \<Rightarrow> string option \<times> bool \<Rightarrow> string \<Rightarrow> string \<Rightarrow> time \<Rightarrow> job" where
  \<comment> \<open>Modelled from the spec: the job that the library builds from the arguments of
      \<open>add_job\<close>; it ``computes initial \<open>nextFireTime = resolve(schedule, now)\<close>'' and the
      job is Active.\<close>
  "new_job env f tr a i n now =
     \<lparr>jobid = i, func = f, args = a, name = n, trigger = tr,
      next_run_time = Some (get_next_fire_time (cron_wait env) tr now), state = Active\<rparr>"

definition schedule_channel_scrape ::
  "'w env \<Rightarrow> string option \<Rightarrow> bool \<Rightarrow> string \<Rightarrow> int dict option \<Rightarrow> string dict option \<Rightarrow> string option
     \<Rightarrow> time \<Rightarrow> 'w scheduler \<Rightarrow> (exception + string) \<times> 'w scheduler" where
  "schedule_channel_scrape env channel_id include_comments schedule_type interval cron job_id now s =
     (let jid = (if py_not job_id
                 then ''channel_'' @ py_str channel_id @ ''_'' @ strftime env ''%Y%m%d%H%M%S'' now
                 else the job_id);
          (tr, msgs) = priv_parse_schedule (cron_field_ok env) schedule_type interval cron;
          s1 = s\<lparr>logged := logged s @ msgs\<rparr>
      in case tr of
           Inl e \<Rightarrow> (Inl e, s1)
         | Inr trig \<Rightarrow>
             (case scheduler_add_job (picklable env)
                     (new_job env RunChannelScrape trig (channel_id, include_comments) jid
                        (''Channel Scrape: '' @ py_str channel_id) now) (jobs s1) of
                Inl e \<Rightarrow> (Inl e, s1)
              | Inr js \<Rightarrow>
                  (Inr jid,
                   logger_info (''Scheduled channel scrape for '' @ py_str channel_id @ '' with job ID '' @ jid)
                     (s1\<lparr>jobs := js\<rparr>))))"

definition schedule_video_scrape ::
  "'w env \<Rightarrow> string option \<Rightarrow> bool \<Rightarrow> string \<Rightarrow> int dict option \<Rightarrow> string dict option \<Rightarrow> string option
     \<Rightarrow> time \<Rightarrow> 'w scheduler \<Rightarrow> (exception + string) \<times> 'w scheduler" where
  "schedule_video_scrape env video_id include_comments schedule_type interval cron job_id now s =
     (let jid = (if py_not job_id
                 then ''video_'' @ py_str video_id @ ''_'' @ strftime env ''%Y%m%d%H%M%S'' now
                 else the job_id);
          (tr, msgs) = priv_parse_schedule (cron_field_ok env) schedule_type interval cron;
          s1 = s\<lparr>logged := logged s @ msgs\<rparr>
      in case tr of
           Inl e \<Rightarrow> (Inl e, s1)
         | Inr trig \<Rightarrow>
             (case scheduler_add_job (picklable env)
                     (new_job env RunVideoScrape trig (video_id, include_comments) jid
                        (''Video Scrape: '' @ py_str video_id) now) (jobs s1) of
                Inl e \<Rightarrow> (Inl e, s1)
              | Inr js \<Rightarrow>
                  (Inr jid,
                   logger_info (''Scheduled video scrape for '' @ py_str video_id @ '' with job ID '' @ jid)
                     (s1\<lparr>jobs := js\<rparr>))))"

definition schedule_playlist_scrape ::
  "'w env \<Rightarrow> string option \<Rightarrow> bool \<Rightarrow> string \<Rightarrow> int dict option \<Rightarrow> string dict option \<Rightarrow> string option
     \<Rightarrow> time \<Rightarrow> 'w scheduler \<Rightarrow> (exception + string) \<times> 'w scheduler" where
  "schedule_playlist_scrape env playlist_id include_comments schedule_type interval cron job_id now s =
     (let jid = (if py_not job_id
                 then ''playlist_'' @ py_str playlist_id @ ''_'' @ strftime env ''%Y%m%d%H%M%S'' now
                 else the job_id);
          (tr, msgs) = priv_parse_schedule (cron_field_ok env) schedule_type interval cron;
          s1 = s\<lparr>logged := logged s @ msgs\<rparr>
      in case tr of
           Inl e \<Rightarrow> (Inl e, s1)
         | Inr trig \<Rightarrow>
             (case scheduler_add_job (picklable env)
                     (new_job env RunPlaylistScrape trig (playlist_id, include_comments) jid
                        (''Playlist Scrape: '' @ py_str playlist_id) now) (jobs s1) of
                Inl e \<Rightarrow> (Inl e, s1)
              | Inr js \<Rightarrow>
                  (Inr jid,
                   logger_info (''Scheduled playlist scrape for '' @ py_str playlist_id @ '' with job ID '' @ jid)
                     (s1\<lparr>jobs := js\<rparr>))))"

definition schedule_search_scrape ::
  "'w env \<Rightarrow> string option \<Rightarrow> bool \<Rightarrow> string \<Rightarrow> int dict option \<Rightarrow> string dict option \<Rightarrow> string option
     \<Rightarrow> time \<Rightarrow> 'w scheduler \<Rightarrow> (exception + string) \<times> 'w scheduler" where
  \<comment> \<open>without a job id, \<open>query.replace\<close> on a missing query is an \<open>AttributeError\<close>\<close>
  "schedule_search_scrape env query include_comments schedule_type interval cron job_id now s =
     (if py_not job_id \<and> query = None then (Inl (AttributeError ''replace''), s)
      else
     (let jid = (if py_not job_id
                 then ''search_'' @ replace_spaces (the query) @ ''_'' @ strftime env ''%Y%m%d%H%M%S'' now
                 else the job_id);
          (tr, msgs) = priv_parse_schedule (cron_field_ok env) schedule_type interval cron;
          s1 = s\<lparr>logged := logged s @ msgs\<rparr>
      in case tr of
           Inl e \<Rightarrow> (Inl e, s1)
         | Inr trig \<Rightarrow>
             (case scheduler_add_job (picklable env)
                     (new_job env RunSearchScrape trig (query, include_comments) jid
                        (''Search Scrape: '' @ py_str query) now) (jobs s1) of
                Inl e \<Rightarrow> (Inl e, s1)
              | Inr js \<Rightarrow>
                  (Inr jid,
                   logger_info (''Scheduled search scrape for '' @ quoted (py_str query) @ '' with job ID '' @ jid)
                     (s1\<lparr>jobs := js\<rparr>)))))"

text \<open>A job entry of the configuration file; \<open>None\<close> is an absent key.\<close>

record job_entry =
  entry_type :: "string option"
  entry_id :: "string option"
  entry_channel_id :: "string option"
  entry_video_id :: "string option"
  entry_playlist_id :: "string option"
  entry_query :: "string option"
  entry_include_comments :: "bool option"
  entry_schedule_type :: "string option"
  entry_interval :: "int dict option"
  entry_cron :: "string dict option"

definition dict_get :: "'a option \<Rightarrow> 'a \<Rightarrow> 'a" where
  \<comment> \<open>\<open>job.get(key, default)\<close>\<close>
  "dict_get v d = (case v of None \<Rightarrow> d | Some x \<Rightarrow> x)"

fun priv_add_scheduled_jobs_from_config ::
  "'w env \<Rightarrow> job_entry list \<Rightarrow> time \<Rightarrow> 'w scheduler \<Rightarrow> (exception + unit) \<times> 'w scheduler" where
  \<comment> \<open>\<open>_add_scheduled_jobs_from_config\<close>: the loop over \<open>scheduled_jobs\<close>; an exception of
      a \<open>schedule_*\<close> call leaves the loop\<close>
  "priv_add_scheduled_jobs_from_config env [] now s = (Inr (), s)"
| "priv_add_scheduled_jobs_from_config env (job # rest) now s =
     (let job_type = entry_type job;
          job_id = dict_get (entry_id job) (py_str job_type @ ''_'' @ strftime env ''%Y%m%d%H%M%S'' now);
          r = (if job_type = Some ''channel'' then
                 schedule_channel_scrape env (entry_channel_id job)
                   (dict_get (entry_include_comments job) False)
                   (dict_get (entry_schedule_type job) ''interval'')
                   (entry_interval job) (entry_cron job) (Some job_id) now s
               else if job_type = Some ''video'' then
                 schedule_video_scrape env (entry_video_id job)
                   (dict_get (entry_include_comments job) True)
                   (dict_get (entry_schedule_type job) ''interval'')
                   (entry_interval job) (entry_cron job) (Some job_id) now s
               else if job_type = Some ''playlist'' then
                 schedule_playlist_scrape env (entry_playlist_id job)
                   (dict_get (entry_include_comments job) False)
                   (dict_get (entry_schedule_type job) ''interval'')
                   (entry_interval job) (entry_cron job) (Some job_id) now s
               else if job_type = Some ''search'' then
                 schedule_search_scrape env (entry_query job)
                   (dict_get (entry_include_comments job) False)
                   (dict_get (entry_schedule_type job) ''interval'')
                   (entry_interval job) (entry_cron job) (Some job_id) now s
               else (Inr [], logger_error (''Unknown job type: '' @ py_str job_type) s))
      in case r of
           (Inl e, s') \<Rightarrow> (Inl e, s')
         | (Inr _, s') \<Rightarrow> priv_add_scheduled_jobs_from_config env rest now s')"

definition start :: "'w env \<Rightarrow> job_entry list \<Rightarrow> time \<Rightarrow> 'w scheduler \<Rightarrow> (exception + unit) \<times> 'w scheduler" where
  "start env scheduled_jobs now s =
     priv_add_scheduled_jobs_from_config env scheduled_jobs now (logger_info ''Scheduler started'' s)"

definition shutdown :: "'w scheduler \<Rightarrow> 'w scheduler" where
  "shutdown s = logger_info ''Scheduler shutdown'' s"

subsection \<open>The control surface\<close>

definition job_info :: "'w env \<Rightarrow> job \<Rightarrow> (string option) dict" where
  \<comment> \<open>the dictionary \<open>job_info\<close> built in the loop of \<open>list_jobs\<close>\<close>
  "job_info env job =
     [(''id'', Some (jobid job)),
      (''name'', Some (name job)),
      (''next_run_time'', map_option (strftime env ''%Y-%m-%d %H:%M:%S'') (next_run_time job)),
      (''trigger'', Some (trigger_str env (trigger job)))]"

definition list_jobs :: "'w env \<Rightarrow> 'w scheduler \<Rightarrow> (string option) dict list" where
  \<comment> \<open>one \<open>job_info\<close> dictionary per job of \<open>scheduler.get_jobs()\<close>\<close>
  "list_jobs env s = map (job_info env) (scheduler_get_jobs (jobs s))"

definition remove_job :: "string \<Rightarrow> 'w scheduler \<Rightarrow> (exception + bool) \<times> 'w scheduler" where
  "remove_job job_id s =
     (case scheduler_remove_job job_id (jobs s) of
        Inr js \<Rightarrow> (Inr True, logger_info (''Removed job '' @ job_id) (s\<lparr>jobs := js\<rparr>))
      | Inl e \<Rightarrow> (Inr False, logger_error (''Error removing job '' @ job_id @ '': '' @ str_exception e) s))"

definition pause_job :: "string \<Rightarrow> 'w scheduler \<Rightarrow> (exception + bool) \<times> 'w scheduler" where
  "pause_job job_id s =
     (case scheduler_pause_job job_id (jobs s) of
        Inr js \<Rightarrow> (Inr True, logger_info (''Paused job '' @ job_id) (s\<lparr>jobs := js\<rparr>))
      | Inl e \<Rightarrow> (Inr False, logger_error (''Error pausing job '' @ job_id @ '': '' @ str_exception e) s))"

definition resume_job :: "'w env \<Rightarrow> string \<Rightarrow> time \<Rightarrow> 'w scheduler \<Rightarrow> (exception + bool) \<times> 'w scheduler" where
  "resume_job env job_id now s =
     (case scheduler_resume_job (cron_wait env) job_id now (jobs s) of
        Inr js \<Rightarrow> (Inr True, logger_info (''Resumed job '' @ job_id) (s\<lparr>jobs := js\<rparr>))
      | Inl e \<Rightarrow> (Inr False, logger_error (''Error resuming job '' @ job_id @ '': '' @ str_exception e) s))"

definition run_job_now :: "'w env \<Rightarrow> string \<Rightarrow> 'w scheduler \<Rightarrow> (exception + bool) \<times> 'w scheduler" where
  "run_job_now env job_id s =
     (case get_job (jobs s) job_id of
        Some job \<Rightarrow>
          (case call_job_func env (func job) (args job) s of
             (Inr _, s1) \<Rightarrow> (Inr True, logger_info (''Manually triggered job '' @ job_id) s1)
           | (Inl e, s1) \<Rightarrow>
               (Inr False, logger_error (''Error running job '' @ job_id @ '': '' @ str_exception e) s1))
      | None \<Rightarrow> (Inr False, logger_error (''Job '' @ job_id @ '' not found'') s))"

definition main_run ::
  "'w env \<Rightarrow> job_entry list \<Rightarrow> string option \<Rightarrow> time \<Rightarrow> 'w scheduler \<Rightarrow> (exception + unit) \<times> 'w scheduler" where
  \<comment> \<open>the branch \<open>args.action == "run"\<close> of \<open>main\<close>\<close>
  "main_run env scheduled_jobs job_id now s =
     (if py_not job_id then (Inr (), print (''Error: --job-id is required for '' @ quoted ''run'' @ '' action'') s)
      else
        case start env scheduled_jobs now s of
          (Inl e, s1) \<Rightarrow> (Inl e, s1)
        | (Inr _, s1) \<Rightarrow>
            (case run_job_now env (the job_id) s1 of
               (Inl e, s2) \<Rightarrow> (Inl e, s2)
             | (Inr success, s2) \<Rightarrow>
                 (Inr (),
                  shutdown (print (if success then ''Job '' @ the job_id @ '' triggered successfully''
                                   else ''Failed to trigger job '' @ the job_id) s2))))"

subsection \<open>The dispatcher loop\<close>

definition reschedule :: "'w env \<Rightarrow> time \<Rightarrow> job \<Rightarrow> 'w scheduler \<Rightarrow> 'w scheduler" where
  \<comment> \<open>Modelled from the spec: step 4 of the Dispatcher Loop (the library's scheduler thread,
      not under src/), ``recompute \<open>nextFireTime = resolve(job.schedule, completionTime)\<close>
      and \<open>store.setNextFireTime\<close>''.\<close>
  "reschedule env now j s =
     (case setNextFireTime (jobid j) (Some (get_next_fire_time (cron_wait env) (trigger j) now)) (jobs s) of
        Inl e \<Rightarrow> s
      | Inr js \<Rightarrow> s\<lparr>jobs := js\<rparr>)"

definition lateness :: "time \<Rightarrow> job \<Rightarrow> int" where
  \<comment> \<open>\<open>now - job.nextFireTime\<close>\<close>
  "lateness now j = (case next_run_time j of None \<Rightarrow> 0 | Some t \<Rightarrow> now - t)"

definition fire_job :: "'w env \<Rightarrow> time \<Rightarrow> job \<Rightarrow> 'w scheduler \<Rightarrow> bool \<times> 'w scheduler" where
  \<comment> \<open>Modelled from the spec: step 3 to 5 of the Dispatcher Loop for one due job, with the
      grace period and the instance bound that \<open>_setup_scheduler\<close> configures: a firing
      later than the grace period is skipped and rescheduled; a firing over the instance
      bound is skipped and logged; otherwise the bound method runs, a failure is logged,
      and the job is rescheduled. The result tells whether the job was fired.\<close>
  "fire_job env now j s =
     (if lateness now j > misfire_grace_time then
        (False, reschedule env now j (logger_warning (''Run time of job '' @ jobid j @ '' was missed'') s))
      else
        case submit_job (jobid j) (inflight s) of
          None \<Rightarrow>
            (False, reschedule env now j
               (logger_warning (''Execution of job '' @ jobid j
                                 @ '' skipped: maximum number of running instances reached'') s))
        | Some running \<Rightarrow>
            (case call_job_func env (func j) (args j) (s\<lparr>inflight := running\<rparr>) of
               (r, s1) \<Rightarrow>
                 let s2 = s1\<lparr>inflight := job_done (jobid j) (inflight s1)\<rparr>;
                     s3 = (case r of
                             Inl e \<Rightarrow> logger_error (''Job '' @ jobid j @ '' raised an exception: ''
                                                     @ str_exception e) s2
                           | Inr _ \<Rightarrow> s2)
                 in (True, reschedule env now j s3)))"

definition skipped_message :: "job \<Rightarrow> log_entry" where
  "skipped_message j =
     (WARNING, ''Execution of job '' @ jobid j @ '' skipped: maximum number of running instances reached'')"

definition dispatch_job :: "'w env \<Rightarrow> time \<Rightarrow> job \<Rightarrow> 'w scheduler \<Rightarrow> bool \<times> 'w scheduler" where
  \<comment> \<open>Modelled from the spec: the dispatch of one due job to the worker pool (section 5),
      ``a job id is marked in-flight when dispatched and cleared on completion; the tick
      loop must check this marker before dispatching''. The firing is left running; the
      job is rescheduled. The result tells whether the job was dispatched.\<close>
  "dispatch_job env now j s =
     (if lateness now j > misfire_grace_time then
        (False, reschedule env now j (logger_warning (''Run time of job '' @ jobid j @ '' was missed'') s))
      else
        case submit_job (jobid j) (inflight s) of
          None \<Rightarrow> (False, reschedule env now j (s\<lparr>logged := logged s @ [skipped_message j]\<rparr>))
        | Some running \<Rightarrow> (True, reschedule env now j (s\<lparr>inflight := running\<rparr>)))"

fun dispatch_all :: "'w env \<Rightarrow> time \<Rightarrow> job list \<Rightarrow> 'w scheduler \<Rightarrow> 'w scheduler" where
  "dispatch_all env now [] s = s"
| "dispatch_all env now (j # js) s = dispatch_all env now js (snd (dispatch_job env now j s))"

definition finish_job :: "'w env \<Rightarrow> job \<Rightarrow> 'w scheduler \<Rightarrow> 'w scheduler" where
  \<comment> \<open>Modelled from the spec: the completion, on the worker pool, of a firing of the job
      dispatched earlier: the bound method has run, a failure is logged, the in-flight
      marker is cleared. Without a firing of that id in flight nothing completes.\<close>
  "finish_job env j s =
     (if inflight s (jobid j) = 0 then s
      else
        case call_job_func env (func j) (args j) s of
          (r, s1) \<Rightarrow>
            let s2 = s1\<lparr>inflight := job_done (jobid j) (inflight s1)\<rparr>
            in (case r of
                  Inl e \<Rightarrow> logger_error (''Job '' @ jobid j @ '' raised an exception: ''
                                          @ str_exception e) s2
                | Inr _ \<Rightarrow> s2))"

fun fire_all :: "'w env \<Rightarrow> time \<Rightarrow> job list \<Rightarrow> 'w scheduler \<Rightarrow> string list \<times> 'w scheduler" where
  "fire_all env now [] s = ([], s)"
| "fire_all env now (j # js) s =
     (case fire_job env now j s of
        (fired, s1) \<Rightarrow>
          (case fire_all env now js s1 of
             (ids, s2) \<Rightarrow> (if fired then jobid j # ids else ids, s2)))"

definition tick :: "'w env \<Rightarrow> time \<Rightarrow> 'w scheduler \<Rightarrow> string list \<times> 'w scheduler" where
  \<comment> \<open>Modelled from the spec: one tick of the Dispatcher Loop, ``\<open>due = store.listDue(now)\<close>;
      for each job in due, in order''. The first component lists the ids fired.\<close>
  "tick env now s = fire_all env now (listDue now (jobs s)) s"

subsection \<open>Histories of operations\<close>

text \<open>
  The operations that change the state: the control surface, a tick of the dispatcher
  whose firings complete within it (\<open>Tick\<close>), a tick that leaves its firings running
  on the worker pool (\<open>Dispatch\<close>), and the completion of a running firing (\<open>Finish\<close>).
\<close>

datatype op =
    ScheduleChannelScrape "string option" bool string "int dict option" "string dict option" "string option"
  | ScheduleVideoScrape "string option" bool string "int dict option" "string dict option" "string option"
  | SchedulePlaylistScrape "string option" bool string "int dict option" "string dict option" "string option"
  | ScheduleSearchScrape "string option" bool string "int dict option" "string dict option" "string option"
  | RemoveJob string
  | PauseJob string
  | ResumeJob string
  | RunJobNow string
  | Tick
  | Dispatch
  | Finish job

fun exec_op :: "'w env \<Rightarrow> time \<Rightarrow> op \<Rightarrow> 'w scheduler \<Rightarrow> 'w scheduler" where
  "exec_op env now (ScheduleChannelScrape t c st iv cr i) s = snd (schedule_channel_scrape env t c st iv cr i now s)"
| "exec_op env now (ScheduleVideoScrape t c st iv cr i) s = snd (schedule_video_scrape env t c st iv cr i now s)"
| "exec_op env now (SchedulePlaylistScrape t c st iv cr i) s = snd (schedule_playlist_scrape env t c st iv cr i now s)"
| "exec_op env now (ScheduleSearchScrape t c st iv cr i) s = snd (schedule_search_scrape env t c st iv cr i now s)"
| "exec_op env now (RemoveJob i) s = snd (remove_job i s)"
| "exec_op env now (PauseJob i) s = snd (pause_job i s)"
| "exec_op env now (ResumeJob i) s = snd (resume_job env i now s)"
| "exec_op env now (RunJobNow i) s = snd (run_job_now env i s)"
| "exec_op env now Tick s = snd (tick env now s)"
| "exec_op env now Dispatch s = dispatch_all env now (listDue now (jobs s)) s"
| "exec_op env now (Finish j) s = finish_job env j s"

fun exec_ops :: "'w env \<Rightarrow> (time \<times> op) list \<Rightarrow> 'w scheduler \<Rightarrow> 'w scheduler" where
  "exec_ops env [] s = s"
| "exec_ops env ((now, x) # xs) s = exec_ops env xs (exec_op env now x s)"

definition reachable :: "'w env \<Rightarrow> 'w scheduler \<Rightarrow> bool" where
  "reachable env s = (\<exists>w xs. s = exec_ops env xs (initial w))"


text \<open>A fixture: Fetch Operations that count their invocations; the video fetch fails.\<close>

definition test_env :: "nat env" where
  "test_env =
     \<lparr>run_channel_scrape = (\<lambda>t c w. (Inr ''{}'', Suc w)),
      run_video_scrape = (\<lambda>t c w. (Inl (FetchError ''quota exceeded''), Suc w)),
      run_playlist_scrape = (\<lambda>t c w. (Inr ''{}'', Suc w)),
      run_search_scrape = (\<lambda>t c w. (Inr ''{}'', Suc w)),
      cron_wait = (\<lambda>kw t. 79999),
      cron_field_ok = (\<lambda>k v. True),
      picklable = (\<lambda>j. True),
      strftime = (\<lambda>fmt t. fmt),
      trigger_str = (\<lambda>t. ''trigger'')\<rparr>"

subsection \<open>The spec's vocabulary\<close>

fun fetch :: "'w env \<Rightarrow> job_func \<Rightarrow> string option \<Rightarrow> bool \<Rightarrow> 'w \<Rightarrow> (exception + string) \<times> 'w" where
  \<comment> \<open>the Fetch Operation bound to a job: \<open>fetch(operation, target, includeComments)\<close>\<close>
  "fetch env RunChannelScrape = run_channel_scrape env"
| "fetch env RunVideoScrape = run_video_scrape env"
| "fetch env RunPlaylistScrape = run_playlist_scrape env"
| "fetch env RunSearchScrape = run_search_scrape env"

fun job_label :: "job_func \<Rightarrow> string" where
  \<comment> \<open>the prefix of the display name that each \<open>schedule_*\<close> method gives its job\<close>
  "job_label RunChannelScrape = ''Channel Scrape: ''"
| "job_label RunVideoScrape = ''Video Scrape: ''"
| "job_label RunPlaylistScrape = ''Playlist Scrape: ''"
| "job_label RunSearchScrape = ''Search Scrape: ''"

fun addJob ::
  "'w env \<Rightarrow> job_func \<Rightarrow> string option \<Rightarrow> bool \<Rightarrow> string \<Rightarrow> int dict option \<Rightarrow> string dict option
     \<Rightarrow> string option \<Rightarrow> time \<Rightarrow> 'w scheduler \<Rightarrow> (exception + string) \<times> 'w scheduler" where
  \<comment> \<open>the spec's \<open>addJob(operation, target, includeComments, schedule, id?)\<close>: the
      \<open>schedule_*\<close> method of the operation\<close>
  "addJob env RunChannelScrape = schedule_channel_scrape env"
| "addJob env RunVideoScrape = schedule_video_scrape env"
| "addJob env RunPlaylistScrape = schedule_playlist_scrape env"
| "addJob env RunSearchScrape = schedule_search_scrape env"

definition eligible :: "time \<Rightarrow> (string \<Rightarrow> nat) \<Rightarrow> job \<Rightarrow> bool" where
  \<comment> \<open>a due job that the dispatcher fires: within the grace period and under the
      instance bound\<close>
  "eligible now running j = (lateness now j \<le> misfire_grace_time \<and> running (jobid j) < max_instances)"

text \<open>A fixture: a store holding one video job that runs every two hours, due at 3600.\<close>

definition test_job :: job where
  "test_job =
     \<lparr>jobid = ''job1'', func = RunVideoScrape, args = (Some ''v1'', True),
      name = ''Video Scrape: v1'', trigger = IntervalTrigger 0 0 2 0 0,
      next_run_time = Some 3600, state = Active\<rparr>"

definition test_state :: "nat scheduler" where
  "test_state = (initial 0)\<lparr>jobs := [test_job]\<rparr>"

subsection \<open>Invariants of the job store\<close>



text \<open>A fixture: the state after adding one hourly video job to the empty store.\<close>

definition test_added :: "nat scheduler" where
  "test_added =
     exec_ops test_env
       [(0, ScheduleVideoScrape (Some ''v1'') True ''interval'' (Some [(''hours'', 1)]) None (Some ''job1''))]
       (initial 0)"

text \<open>
  A fixture: the same collaborators with a job store that cannot serialise the jobs of
  this scheduler object.
\<close>

definition unpicklable_env :: "nat env" where
  "unpicklable_env = test_env\<lparr>picklable := (\<lambda>j. False)\<rparr>"

text \<open>
  A fixture: the hourly job of \<open>test_added\<close> dispatched at 3600, 7200 and 10800, each
  firing left running on the pool.
\<close>

definition hourly_job :: "time \<Rightarrow> job" where
  "hourly_job t =
     \<lparr>jobid = ''job1'', func = RunVideoScrape, args = (Some ''v1'', True),
      name = ''Video Scrape: v1'', trigger = IntervalTrigger 0 0 1 0 0,
      next_run_time = Some t, state = Active\<rparr>"

definition test_running1 :: "nat scheduler" where
  "test_running1 = exec_ops test_env [(3600, Dispatch)] test_added"

definition test_running2 :: "nat scheduler" where
  "test_running2 = exec_ops test_env [(7200, Dispatch)] test_running1"

definition test_running3 :: "nat scheduler" where
  "test_running3 = exec_ops test_env [(10800, Dispatch)] test_running2"



section \<open>Interval schedules resolve to the reference time plus the duration\<close>

lemma interval_units_cases:
  "unit \<in> set interval_units \<Longrightarrow>
     unit = ''seconds'' \<or> unit = ''minutes'' \<or> unit = ''hours'' \<or> unit = ''days'' \<or> unit = ''weeks''"
  by (auto simp: interval_units_def)

lemma new_IntervalTrigger_single:
  assumes "unit \<in> set interval_units"
  shows "\<exists>w d h m s. new_IntervalTrigger [(unit, v)] = Inr (IntervalTrigger w d h m s)
           \<and> interval_length (IntervalTrigger w d h m s) = duration unit v"
  using interval_units_cases [OF assms]
  by (elim disjE) (simp_all add: new_IntervalTrigger_def interval_units_def kwarg_def duration_def)

lemma new_IntervalTrigger_default:
  "new_IntervalTrigger [(''days'', 1)] = Inr (IntervalTrigger 0 1 0 0 0)"
  by (simp add: new_IntervalTrigger_def interval_units_def kwarg_def)

lemma get_next_fire_time_interval:
  "get_next_fire_time cn (IntervalTrigger w d h m s) t = t + interval_length (IntervalTrigger w d h m s)"
  by simp

text \<open>
  C1. For every interval schedule \<open>(unit, value)\<close> whose unit is one of seconds, minutes,
  hours, days, weeks and every reference time \<open>fromTime\<close>, \<open>_parse_schedule\<close> with
  schedule type \<open>interval\<close> yields a trigger, without logging, whose next fire time is
  \<open>fromTime + duration unit value\<close>; when the interval configuration is missing
  (\<open>None\<close>) it yields the one-day interval, whose next fire time is \<open>fromTime + 86400\<close>.
\<close>

theorem parse_schedule_interval_next_fire:
  assumes "unit \<in> set interval_units"
  shows "(\<exists>t. priv_parse_schedule fo ''interval'' (Some [(unit, v)]) cron = (Inr t, [])
              \<and> get_next_fire_time cn t fromTime = fromTime + duration unit v)
         \<and> priv_parse_schedule fo ''interval'' None cron = (Inr (IntervalTrigger 0 1 0 0 0), [])
         \<and> get_next_fire_time cn (IntervalTrigger 0 1 0 0 0) fromTime = fromTime + duration ''days'' 1"
proof -
  obtain w d h m s where t: "new_IntervalTrigger [(unit, v)] = Inr (IntervalTrigger w d h m s)"
      "interval_length (IntervalTrigger w d h m s) = duration unit v"
    using new_IntervalTrigger_single [OF assms] by blast
  have "get_next_fire_time cn (IntervalTrigger w d h m s) fromTime = fromTime + duration unit v"
    using t(2) by simp
  then have first: "\<exists>t. priv_parse_schedule fo ''interval'' (Some [(unit, v)]) cron = (Inr t, [])
              \<and> get_next_fire_time cn t fromTime = fromTime + duration unit v"
    using t(1) by (simp add: priv_parse_schedule_def py_not_def)
  have second: "priv_parse_schedule fo ''interval'' None cron = (Inr (IntervalTrigger 0 1 0 0 0), [])"
    by (simp add: priv_parse_schedule_def py_not_def new_IntervalTrigger_default)
  have third: "get_next_fire_time cn (IntervalTrigger 0 1 0 0 0) fromTime = fromTime + duration ''days'' 1"
    by (simp add: duration_def)
  from first second third show ?thesis by blast
qed

theorem parse_schedule_interval_next_fire_witness:
  "''hours'' \<in> set interval_units
   \<and> priv_parse_schedule (\<lambda>k v. True) ''interval'' (Some [(''hours'', 2)]) None = (Inr (IntervalTrigger 0 0 2 0 0), [])
   \<and> get_next_fire_time (\<lambda>kw t. 0) (IntervalTrigger 0 0 2 0 0) 1000 = 1000 + duration ''hours'' 2
   \<and> duration ''hours'' 2 = 7200"
proof -
  have h: "''hours'' \<in> set interval_units" by (simp add: interval_units_def)
  have p: "priv_parse_schedule (\<lambda>k v. True) ''interval'' (Some [(''hours'', 2)]) None = (Inr (IntervalTrigger 0 0 2 0 0), [])"
    by (simp add: priv_parse_schedule_def py_not_def new_IntervalTrigger_def interval_units_def kwarg_def)
  from parse_schedule_interval_next_fire [OF h, where fo = "\<lambda>k v. True" and v = 2 and cron = None
      and cn = "\<lambda>kw t. 0" and fromTime = 1000]
  have "get_next_fire_time (\<lambda>kw t. 0) (IntervalTrigger 0 0 2 0 0) 1000 = 1000 + duration ''hours'' 2"
    unfolding p by simp
  with h p show ?thesis by (simp add: duration_def)
qed

section \<open>The per-job wrappers isolate fetch failures\<close>

lemma priv_run_channel_scrape_frame:
  "fst (priv_run_channel_scrape env t c s) = Inr ()
   \<and> jobs (snd (priv_run_channel_scrape env t c s)) = jobs s
   \<and> inflight (snd (priv_run_channel_scrape env t c s)) = inflight s
   \<and> stdout (snd (priv_run_channel_scrape env t c s)) = stdout s
   \<and> world (snd (priv_run_channel_scrape env t c s)) = snd (run_channel_scrape env t c (world s))"
  by (simp add: priv_run_channel_scrape_def logger_info_def logger_error_def Let_def
      split: prod.splits sum.splits)

lemma priv_run_video_scrape_frame:
  "fst (priv_run_video_scrape env t c s) = Inr ()
   \<and> jobs (snd (priv_run_video_scrape env t c s)) = jobs s
   \<and> inflight (snd (priv_run_video_scrape env t c s)) = inflight s
   \<and> stdout (snd (priv_run_video_scrape env t c s)) = stdout s
   \<and> world (snd (priv_run_video_scrape env t c s)) = snd (run_video_scrape env t c (world s))"
  by (simp add: priv_run_video_scrape_def logger_info_def logger_error_def Let_def
      split: prod.splits sum.splits)

lemma priv_run_playlist_scrape_frame:
  "fst (priv_run_playlist_scrape env t c s) = Inr ()
   \<and> jobs (snd (priv_run_playlist_scrape env t c s)) = jobs s
   \<and> inflight (snd (priv_run_playlist_scrape env t c s)) = inflight s
   \<and> stdout (snd (priv_run_playlist_scrape env t c s)) = stdout s
   \<and> world (snd (priv_run_playlist_scrape env t c s)) = snd (run_playlist_scrape env t c (world s))"
  by (simp add: priv_run_playlist_scrape_def logger_info_def logger_error_def Let_def
      split: prod.splits sum.splits)

lemma priv_run_search_scrape_frame:
  "fst (priv_run_search_scrape env t c s) = Inr ()
   \<and> jobs (snd (priv_run_search_scrape env t c s)) = jobs s
   \<and> inflight (snd (priv_run_search_scrape env t c s)) = inflight s
   \<and> stdout (snd (priv_run_search_scrape env t c s)) = stdout s
   \<and> world (snd (priv_run_search_scrape env t c s)) = snd (run_search_scrape env t c (world s))"
  by (simp add: priv_run_search_scrape_def logger_info_def logger_error_def Let_def
      split: prod.splits sum.splits)

lemma call_job_func_frame:
  "fst (call_job_func env f a s) = Inr ()
   \<and> jobs (snd (call_job_func env f a s)) = jobs s
   \<and> inflight (snd (call_job_func env f a s)) = inflight s
   \<and> stdout (snd (call_job_func env f a s)) = stdout s
   \<and> world (snd (call_job_func env f a s)) = snd (fetch env f (fst a) (snd a) (world s))"
proof (cases a)
  case (Pair t c)
  show ?thesis
    unfolding Pair
    by (cases f)
       (simp_all add: priv_run_channel_scrape_frame priv_run_video_scrape_frame
          priv_run_playlist_scrape_frame priv_run_search_scrape_frame)
qed

section \<open>The job store\<close>




lemma set_put: "set (put j js) \<subseteq> insert j (set js)"
  by (induction js) auto

lemma put_mem: "j \<in> set (put j js)"
  by (induction js) auto



lemma put_all:
  assumes "\<forall>x \<in> set js. P x" and "P j"
  shows "\<forall>x \<in> set (put j js). P x"
  using assms set_put [of j js] by auto

section \<open>The dispatcher fires every eligible due job\<close>

lemma submit_job_eligible:
  "submit_job i running = (if running i < max_instances then Some (running(i := Suc (running i))) else None)"
  by (simp add: submit_job_def)

lemma jobs_reschedule_cong: "jobs s = jobs s' \<Longrightarrow> jobs (reschedule env now j s) = jobs (reschedule env now j s')"
  by (simp add: reschedule_def split: sum.splits)

lemma reschedule_frame:
  "inflight (reschedule env now j s) = inflight s
   \<and> world (reschedule env now j s) = world s
   \<and> logged (reschedule env now j s) = logged s
   \<and> stdout (reschedule env now j s) = stdout s"
  by (simp add: reschedule_def split: sum.splits)

lemma job_done_submit: "job_done i (running(i := Suc (running i))) = running"
  by (simp add: job_done_def)

lemma fire_job_eligible:
  assumes "eligible now (inflight s) j"
  shows "\<exists>s'. fire_job env now j s = (True, reschedule env now j s')
              \<and> jobs s' = jobs s \<and> inflight s' = inflight s \<and> stdout s' = stdout s
              \<and> world s' = snd (fetch env (func j) (fst (args j)) (snd (args j)) (world s))"
proof -
  define r where "r = (inflight s)(jobid j := Suc (inflight s (jobid j)))"
  obtain res s1 where c: "call_job_func env (func j) (args j) (s\<lparr>inflight := r\<rparr>) = (res, s1)"
    by (cases "call_job_func env (func j) (args j) (s\<lparr>inflight := r\<rparr>)")
  have fr: "res = Inr ()" "jobs s1 = jobs s" "inflight s1 = r" "stdout s1 = stdout s"
      "world s1 = snd (fetch env (func j) (fst (args j)) (snd (args j)) (world s))"
    using call_job_func_frame [of env "func j" "args j" "s\<lparr>inflight := r\<rparr>"] c by simp_all
  have sub: "submit_job (jobid j) (inflight s) = Some r"
    using assms by (simp add: submit_job_eligible eligible_def r_def)
  have late: "\<not> lateness now j > misfire_grace_time"
    using assms by (simp add: eligible_def)
  have dn: "job_done (jobid j) r = inflight s"
    unfolding r_def by (rule job_done_submit)
  have "fire_job env now j s = (True, reschedule env now j (s1\<lparr>inflight := inflight s\<rparr>))"
    using late by (simp add: fire_job_def sub c fr dn Let_def)
  then show ?thesis using fr by auto
qed

lemma fire_job_not_eligible:
  assumes "\<not> eligible now (inflight s) j"
  shows "\<exists>msg. fire_job env now j s = (False, reschedule env now j (logger_warning msg s))"
  using assms by (auto simp: fire_job_def eligible_def submit_job_eligible)

lemma fire_job_fired: "fst (fire_job env now j s) = eligible now (inflight s) j"
  using fire_job_eligible [of now s j env] fire_job_not_eligible [of now s j env]
  by (cases "eligible now (inflight s) j") auto

lemma fire_job_inflight: "inflight (snd (fire_job env now j s)) = inflight s"
  using fire_job_eligible [of now s j env] fire_job_not_eligible [of now s j env]
  by (cases "eligible now (inflight s) j") (auto simp: reschedule_frame logger_warning_def)


lemma fire_job_skipped_world:
  "\<not> eligible now (inflight s) j \<Longrightarrow> world (snd (fire_job env now j s)) = world s"
  using fire_job_not_eligible [of now s j env]
  by (auto simp: reschedule_frame logger_warning_def)

lemma fire_all_fired:
  "fst (fire_all env now js s) = map jobid (filter (eligible now (inflight s)) js)"
proof (induction js arbitrary: s)
  case Nil
  show ?case by simp
next
  case (Cons j js)
  obtain fired s1 where f: "fire_job env now j s = (fired, s1)"
    by (cases "fire_job env now j s")
  have fired: "fired = eligible now (inflight s) j"
    using fire_job_fired [of env now j s] f by simp
  have infl: "inflight s1 = inflight s"
    using fire_job_inflight [of env now j s] f by simp
  obtain ids s2 where r: "fire_all env now js s1 = (ids, s2)"
    by (cases "fire_all env now js s1")
  have "ids = map jobid (filter (eligible now (inflight s)) js)"
    using Cons.IH [of s1] r infl by simp
  then show ?case
    by (simp add: f r fired)
qed

text \<open>
  C2. Each of the four per-job wrappers returns normally whatever the bound Fetch
  Operation does (return a result or raise), and leaves the job store as it was; so
  the jobs that one tick of the dispatcher fires are exactly the eligible due jobs, in
  order, whatever the outcomes of the Fetch Operations of the jobs fired before them.
\<close>

theorem fetch_failure_isolated:
  "fst (priv_run_channel_scrape env t c s) = Inr ()
   \<and> fst (priv_run_video_scrape env t c s) = Inr ()
   \<and> fst (priv_run_playlist_scrape env t c s) = Inr ()
   \<and> fst (priv_run_search_scrape env t c s) = Inr ()
   \<and> jobs (snd (call_job_func env f (t, c) s)) = jobs s
   \<and> fst (tick env now s) = map jobid (filter (eligible now (inflight s)) (listDue now (jobs s)))"
  using call_job_func_frame [of env f "(t, c)" s]
  by (simp add: priv_run_channel_scrape_frame priv_run_video_scrape_frame
      priv_run_playlist_scrape_frame priv_run_search_scrape_frame tick_def fire_all_fired)

section \<open>The control surface\<close>

lemma scheduler_remove_job_absent:
  "get_job js i = None \<Longrightarrow> scheduler_remove_job i js = Inl (JobLookupError i)"
  by (simp add: scheduler_remove_job_def remove_def)

lemma scheduler_pause_job_absent:
  "get_job js i = None \<Longrightarrow> scheduler_pause_job i js = Inl (JobLookupError i)"
  by (simp add: scheduler_pause_job_def setState_def)

lemma scheduler_resume_job_absent:
  "get_job js i = None \<Longrightarrow> scheduler_resume_job cn i now js = Inl (JobLookupError i)"
  by (simp add: scheduler_resume_job_def)

lemma run_job_now_found:
  assumes "get_job (jobs s) i = Some j"
  shows "run_job_now env i s =
           (Inr True, logger_info (''Manually triggered job '' @ i) (snd (call_job_func env (func j) (args j) s)))"
proof -
  obtain r s1 where c: "call_job_func env (func j) (args j) s = (r, s1)"
    by (cases "call_job_func env (func j) (args j) s")
  have "r = Inr ()"
    using call_job_func_frame [of env "func j" "args j" s] c by simp
  then show ?thesis
    by (simp add: run_job_now_def assms c)
qed

lemma test_state_job: "get_job (jobs test_state) ''job1'' = Some test_job"
  by (simp add: test_state_def initial_def get_job_def test_job_def)

text \<open>
  C8. For a job id that is not in the store, \<open>remove_job\<close>, \<open>pause_job\<close> and
  \<open>resume_job\<close> each return \<open>False\<close>: the \<open>JobLookupError\<close> of the library call is
  caught and logged, no exception leaves the method, and the state differs from the one
  before the call only by the logged error, so the store is unchanged.
\<close>

theorem control_surface_absent_id:
  assumes "get_job (jobs s) i = None"
  shows "remove_job i s =
           (Inr False, logger_error (''Error removing job '' @ i @ '': '' @ str_exception (JobLookupError i)) s)
         \<and> pause_job i s =
           (Inr False, logger_error (''Error pausing job '' @ i @ '': '' @ str_exception (JobLookupError i)) s)
         \<and> resume_job env i now s =
           (Inr False, logger_error (''Error resuming job '' @ i @ '': '' @ str_exception (JobLookupError i)) s)
         \<and> jobs (snd (remove_job i s)) = jobs s
         \<and> jobs (snd (pause_job i s)) = jobs s
         \<and> jobs (snd (resume_job env i now s)) = jobs s"
  using assms
  by (simp add: remove_job_def pause_job_def resume_job_def scheduler_remove_job_absent
      scheduler_pause_job_absent scheduler_resume_job_absent logger_error_def)

theorem control_surface_absent_id_witness:
  "get_job (jobs test_state) ''ghost'' = None
   \<and> fst (remove_job ''ghost'' test_state) = Inr False
   \<and> fst (pause_job ''ghost'' test_state) = Inr False
   \<and> fst (resume_job test_env ''ghost'' 10 test_state) = Inr False
   \<and> jobs (snd (remove_job ''ghost'' test_state)) = [test_job]"
proof -
  have h: "get_job (jobs test_state) ''ghost'' = None"
    by (simp add: test_state_def initial_def get_job_def test_job_def)
  have j: "jobs test_state = [test_job]"
    by (simp add: test_state_def initial_def)
  show ?thesis
    using control_surface_absent_id [OF h, of test_env 10] h j by (simp add: logger_error_def)
qed

text \<open>
  C7. For every job id in the store, \<open>run_job_now\<close> calls the stored bound method with
  the stored arguments, so that the outside world becomes what the job's Fetch Operation
  makes of it at \<open>(target, include_comments)\<close>, returns \<open>True\<close>, and leaves the job
  store as it was: the job's next fire time and every other stored field are unchanged.
\<close>

theorem run_job_now_frame:
  assumes "get_job (jobs s) i = Some j"
  shows "fst (run_job_now env i s) = Inr True
         \<and> world (snd (run_job_now env i s)) = snd (fetch env (func j) (fst (args j)) (snd (args j)) (world s))
         \<and> jobs (snd (run_job_now env i s)) = jobs s
         \<and> get_job (jobs (snd (run_job_now env i s))) i = Some j"
  using call_job_func_frame [of env "func j" "args j" s] assms
  by (simp add: run_job_now_found [OF assms] logger_info_def)

theorem run_job_now_frame_witness:
  "get_job (jobs test_state) ''job1'' = Some test_job
   \<and> fst (run_job_now test_env ''job1'' test_state) = Inr True
   \<and> world (snd (run_job_now test_env ''job1'' test_state)) = 1
   \<and> jobs (snd (run_job_now test_env ''job1'' test_state)) = [test_job]"
proof -
  have w: "snd (fetch test_env (func test_job) (fst (args test_job)) (snd (args test_job)) (world test_state)) = 1"
    by (simp add: test_env_def test_job_def test_state_def initial_def)
  have j: "jobs test_state = [test_job]"
    by (simp add: test_state_def initial_def)
  show ?thesis
    using run_job_now_frame [OF test_state_job, of test_env] test_state_job w j by simp
qed

text \<open>
  C10. For every job id in the store, \<open>run_job_now\<close> runs the stored bound method
  inside the call: the state it returns with \<open>True\<close> is the state after the wrapper
  has run to its end (the Fetch Operation has been applied to the world and its outcome
  logged) followed by the entry ``Manually triggered job''; the executor's count of
  running instances is not touched. So the \<open>run\<close> action of the command line prints
  its success line only in the state after the Fetch Operation.
\<close>

theorem run_job_now_synchronous:
  assumes "get_job (jobs s) i = Some j" and "start env scheduled_jobs now s0 = (Inr (), s)" and "i \<noteq> []"
  shows "run_job_now env i s =
           (Inr True, logger_info (''Manually triggered job '' @ i) (snd (call_job_func env (func j) (args j) s)))
         \<and> world (snd (call_job_func env (func j) (args j) s))
             = snd (fetch env (func j) (fst (args j)) (snd (args j)) (world s))
         \<and> inflight (snd (run_job_now env i s)) = inflight s
         \<and> main_run env scheduled_jobs (Some i) now s0 =
             (Inr (), shutdown (print (''Job '' @ i @ '' triggered successfully'') (snd (run_job_now env i s))))
         \<and> world (snd (main_run env scheduled_jobs (Some i) now s0))
             = snd (fetch env (func j) (fst (args j)) (snd (args j)) (world s))"
proof -
  note r = run_job_now_found [OF assms(1), of env]
  note f = call_job_func_frame [of env "func j" "args j" s]
  have m: "main_run env scheduled_jobs (Some i) now s0 =
             (Inr (), shutdown (print (''Job '' @ i @ '' triggered successfully'') (snd (run_job_now env i s))))"
    using assms(2,3) by (simp add: main_run_def py_not_def r)
  show ?thesis
    using f by (simp add: m r logger_info_def shutdown_def print_def)
qed

theorem run_job_now_synchronous_witness:
  "get_job (jobs test_state) ''job1'' = Some test_job
   \<and> start test_env [] 0 test_state = (Inr (), logger_info ''Scheduler started'' test_state)
   \<and> ''job1'' \<noteq> []
   \<and> world (snd (main_run test_env [] (Some ''job1'') 0 test_state)) = 1
   \<and> stdout (snd (main_run test_env [] (Some ''job1'') 0 test_state)) = [''Job job1 triggered successfully'']"
proof -
  let ?s = "logger_info ''Scheduler started'' test_state"
  have g: "get_job (jobs ?s) ''job1'' = Some test_job"
    using test_state_job by (simp add: logger_info_def)
  have st: "start test_env [] 0 test_state = (Inr (), ?s)"
    by (simp add: start_def)
  have ne: "''job1'' \<noteq> []" by simp
  have w: "snd (fetch test_env (func test_job) (fst (args test_job)) (snd (args test_job)) (world ?s)) = 1"
    by (simp add: test_env_def test_job_def test_state_def initial_def logger_info_def)
  have fr: "stdout (snd (call_job_func test_env (func test_job) (args test_job) ?s)) = []"
    using call_job_func_frame [of test_env "func test_job" "args test_job" ?s]
    by (simp add: test_state_def initial_def logger_info_def)
  have so: "stdout (snd (main_run test_env [] (Some ''job1'') 0 test_state)) = [''Job job1 triggered successfully'']"
    using run_job_now_synchronous [OF g st ne] fr
    by (simp add: shutdown_def print_def logger_info_def)
  have "world (snd (main_run test_env [] (Some ''job1'') 0 test_state))
          = snd (fetch test_env (func test_job) (fst (args test_job)) (snd (args test_job)) (world ?s))"
    using run_job_now_synchronous [OF g st ne] by blast
  then have wo: "world (snd (main_run test_env [] (Some ''job1'') 0 test_state)) = 1"
    using w by simp
  show ?thesis
    using test_state_job st wo so by simp
qed

section \<open>Adding a job performs no validation of the target\<close>

lemma addJob_given_id:
  assumes "i \<noteq> []"
  shows "addJob env f t c st iv cr (Some i) now s =
           (case priv_parse_schedule (cron_field_ok env) st iv cr of
              (Inl e, msgs) \<Rightarrow> (Inl e, s\<lparr>logged := logged s @ msgs\<rparr>)
            | (Inr tr, msgs) \<Rightarrow>
                (case scheduler_add_job (picklable env)
                        (new_job env f tr (t, c) i (job_label f @ py_str t) now) (jobs s) of
                   Inl e \<Rightarrow> (Inl e, s\<lparr>logged := logged s @ msgs\<rparr>)
                 | Inr js \<Rightarrow>
                     (Inr i, s\<lparr>logged := logged s @ msgs
                                   @ [(INFO, ''Scheduled '' @ (case f of RunChannelScrape \<Rightarrow> ''channel''
                                         | RunVideoScrape \<Rightarrow> ''video'' | RunPlaylistScrape \<Rightarrow> ''playlist''
                                         | RunSearchScrape \<Rightarrow> ''search'')
                                       @ '' scrape for ''
                                       @ (case f of RunSearchScrape \<Rightarrow> quoted (py_str t) | _ \<Rightarrow> py_str t)
                                       @ '' with job ID '' @ i)],
                               jobs := js\<rparr>)))"
  using assms
  by (cases f)
     (simp_all add: schedule_channel_scrape_def schedule_video_scrape_def schedule_playlist_scrape_def
        schedule_search_scrape_def py_not_def Let_def logger_info_def
        split: prod.splits sum.splits)

lemma addJob_parse_error:
  assumes "i \<noteq> []" and "fst (priv_parse_schedule (cron_field_ok env) st iv cr) = Inl e"
  shows "fst (addJob env f t c st iv cr (Some i) now s) = Inl e
         \<and> jobs (snd (addJob env f t c st iv cr (Some i) now s)) = jobs s"
proof -
  obtain msgs where "priv_parse_schedule (cron_field_ok env) st iv cr = (Inl e, msgs)"
    using assms(2) by (cases "priv_parse_schedule (cron_field_ok env) st iv cr") simp
  then show ?thesis
    by (simp add: addJob_given_id [OF assms(1)])
qed

lemma addJob_store_outcome:
  assumes "i \<noteq> []" and "fst (priv_parse_schedule (cron_field_ok env) st iv cr) = Inr tr"
  shows "fst (addJob env f t c st iv cr (Some i) now s) =
           (case scheduler_add_job (picklable env) (new_job env f tr (t, c) i (job_label f @ py_str t) now) (jobs s) of
              Inl e \<Rightarrow> Inl e | Inr js \<Rightarrow> Inr i)
         \<and> jobs (snd (addJob env f t c st iv cr (Some i) now s)) =
           (case scheduler_add_job (picklable env) (new_job env f tr (t, c) i (job_label f @ py_str t) now) (jobs s) of
              Inl e \<Rightarrow> jobs s | Inr js \<Rightarrow> js)"
proof -
  obtain msgs where "priv_parse_schedule (cron_field_ok env) st iv cr = (Inr tr, msgs)"
    using assms(2) by (cases "priv_parse_schedule (cron_field_ok env) st iv cr") simp
  then show ?thesis
    by (simp add: addJob_given_id [OF assms(1)] split: sum.splits)
qed

lemma jobid_new_job: "jobid (new_job env f tr a i n now) = i"
  by (simp add: new_job_def)

lemma parse_schedule_default:
  "priv_parse_schedule fo ''interval'' None None = (Inr (IntervalTrigger 0 1 0 0 0), [])"
  by (simp add: priv_parse_schedule_def py_not_def new_IntervalTrigger_default)

text \<open>
  C3, as the claim states it, fails. With a job store that accepts the job, scheduling a
  channel scrape whose channel id is missing returns the job id, not an error, and the
  job is in the store afterwards; the same happens for an empty channel id, and for a
  configuration entry of type \<open>channel\<close> that has no \<open>channel_id\<close>. With a job store
  that cannot serialise the job, the call does fail, but with the store's \<open>TypeError\<close>,
  the error that a well-formed channel id meets as well.
\<close>

theorem add_job_missing_target_counterexample:
  "fst (schedule_channel_scrape test_env None False ''interval'' None None (Some ''job2'') 0 (initial 0))
     = Inr ''job2''
   \<and> map jobid (jobs (snd (schedule_channel_scrape test_env None False ''interval'' None None
                              (Some ''job2'') 0 (initial 0)))) = [''job2'']
   \<and> map args (jobs (snd (schedule_channel_scrape test_env (Some []) False ''interval'' None None
                              (Some ''job2'') 0 (initial 0)))) = [(Some [], False)]
   \<and> map jobid (jobs (snd (priv_add_scheduled_jobs_from_config test_env
         [\<lparr>entry_type = Some ''channel'', entry_id = Some ''job2'', entry_channel_id = None,
           entry_video_id = None, entry_playlist_id = None, entry_query = None,
           entry_include_comments = None, entry_schedule_type = None, entry_interval = None,
           entry_cron = None\<rparr>] 0 (initial 0)))) = [''job2'']
   \<and> fst (schedule_channel_scrape unpicklable_env None False ''interval'' None None (Some ''job2'') 0 (initial 0))
     = Inl (TypeError ''cannot pickle'')
   \<and> fst (schedule_channel_scrape unpicklable_env (Some ''UC123'') False ''interval'' None None
            (Some ''job2'') 0 (initial 0))
     = Inl (TypeError ''cannot pickle'')"
  by (simp add: schedule_channel_scrape_def parse_schedule_default py_not_def Let_def
      logger_info_def scheduler_add_job_def new_job_def initial_def dict_get_def get_job_def
      test_env_def unpicklable_env_def)

text \<open>
  C3, amended. For every add-job call whose target (channel id, video id, playlist id
  or search query) is missing or empty, made with a job id, no validation of the target
  takes place, and the call fails only where it fails for any target: with the exception
  of the trigger constructor; with the \<open>TypeError\<close> of a job store that cannot
  serialise the job; with the \<open>ConflictingIdError\<close> of a taken id; each time the store
  is left as it was. Otherwise the call returns the job id, and the job enters the
  store as an Active job with the target as given.
\<close>

theorem add_job_unvalidated_target:
  assumes "py_not target" and "i \<noteq> []"
  shows "(fst (priv_parse_schedule (cron_field_ok env) st iv cr) = Inl e \<longrightarrow>
            fst (addJob env f target c st iv cr (Some i) now s) = Inl e
            \<and> jobs (snd (addJob env f target c st iv cr (Some i) now s)) = jobs s)
         \<and> (fst (priv_parse_schedule (cron_field_ok env) st iv cr) = Inr tr \<longrightarrow>
              (\<not> picklable env (new_job env f tr (target, c) i (job_label f @ py_str target) now) \<longrightarrow>
                 fst (addJob env f target c st iv cr (Some i) now s) = Inl (TypeError ''cannot pickle'')
                 \<and> jobs (snd (addJob env f target c st iv cr (Some i) now s)) = jobs s)
              \<and> (picklable env (new_job env f tr (target, c) i (job_label f @ py_str target) now)
                   \<and> get_job (jobs s) i \<noteq> None \<longrightarrow>
                 fst (addJob env f target c st iv cr (Some i) now s) = Inl (ConflictingIdError i)
                 \<and> jobs (snd (addJob env f target c st iv cr (Some i) now s)) = jobs s)
              \<and> (picklable env (new_job env f tr (target, c) i (job_label f @ py_str target) now)
                   \<and> get_job (jobs s) i = None \<longrightarrow>
                 fst (addJob env f target c st iv cr (Some i) now s) = Inr i
                 \<and> jobs (snd (addJob env f target c st iv cr (Some i) now s)) =
                     jobs s @ [\<lparr>jobid = i, func = f, args = (target, c),
                                name = job_label f @ py_str target, trigger = tr,
                                next_run_time = Some (get_next_fire_time (cron_wait env) tr now),
                                state = Active\<rparr>]))"
proof -
  have a: "fst (priv_parse_schedule (cron_field_ok env) st iv cr) = Inl e \<longrightarrow>
            fst (addJob env f target c st iv cr (Some i) now s) = Inl e
            \<and> jobs (snd (addJob env f target c st iv cr (Some i) now s)) = jobs s"
    using addJob_parse_error [OF assms(2), of env st iv cr e f target c now s] by blast
  have b: "fst (priv_parse_schedule (cron_field_ok env) st iv cr) = Inr tr \<Longrightarrow>
      fst (addJob env f target c st iv cr (Some i) now s) =
           (case scheduler_add_job (picklable env) (new_job env f tr (target, c) i (job_label f @ py_str target) now) (jobs s) of
              Inl e \<Rightarrow> Inl e | Inr js \<Rightarrow> Inr i)
         \<and> jobs (snd (addJob env f target c st iv cr (Some i) now s)) =
           (case scheduler_add_job (picklable env) (new_job env f tr (target, c) i (job_label f @ py_str target) now) (jobs s) of
              Inl e \<Rightarrow> jobs s | Inr js \<Rightarrow> js)"
    by (rule addJob_store_outcome [OF assms(2)])
  show ?thesis
    using a b by (simp add: scheduler_add_job_def jobid_new_job) (simp add: new_job_def)
qed

theorem add_job_unvalidated_target_witness:
  "py_not (Some ([] :: string)) \<and> ''job2'' \<noteq> [] \<and> ''job1'' \<noteq> []
   \<and> fst (priv_parse_schedule (cron_field_ok test_env) ''interval'' None None) = Inr (IntervalTrigger 0 1 0 0 0)
   \<and> fst (priv_parse_schedule (cron_field_ok test_env) ''cron'' None (Some [(''hourly'', ''1'')]))
       = Inl (TypeError ''hourly'')
   \<and> fst (addJob test_env RunVideoScrape (Some []) True ''cron'' None (Some [(''hourly'', ''1'')])
            (Some ''job2'') 100 test_state) = Inl (TypeError ''hourly'')
   \<and> fst (addJob unpicklable_env RunVideoScrape (Some []) True ''interval'' None None (Some ''job2'') 100 test_state)
       = Inl (TypeError ''cannot pickle'')
   \<and> get_job (jobs test_state) ''job1'' \<noteq> None
   \<and> fst (addJob test_env RunVideoScrape (Some []) True ''interval'' None None (Some ''job1'') 100 test_state)
       = Inl (ConflictingIdError ''job1'')
   \<and> get_job (jobs test_state) ''job2'' = None
   \<and> fst (addJob test_env RunVideoScrape (Some []) True ''interval'' None None (Some ''job2'') 100 test_state)
       = Inr ''job2''
   \<and> jobs (snd (addJob test_env RunVideoScrape (Some []) True ''interval'' None None (Some ''job2'') 100 test_state))
       = [test_job, \<lparr>jobid = ''job2'', func = RunVideoScrape, args = (Some [], True),
                     name = ''Video Scrape: '', trigger = IntervalTrigger 0 1 0 0 0,
                     next_run_time = Some 86500, state = Active\<rparr>]"
proof -
  have a: "py_not (Some ([] :: string))" by (simp add: py_not_def)
  have n2: "''job2'' \<noteq> []" and n1: "''job1'' \<noteq> []" by simp_all
  have p: "fst (priv_parse_schedule (cron_field_ok env) ''interval'' None None) = Inr (IntervalTrigger 0 1 0 0 0)"
    for env :: "nat env"
    by (simp add: parse_schedule_default)
  have q: "fst (priv_parse_schedule (cron_field_ok test_env) ''cron'' None (Some [(''hourly'', ''1'')]))
       = Inl (TypeError ''hourly'')"
    by (simp add: priv_parse_schedule_def py_not_def new_CronTrigger_def cron_fields_def)
  have pk: "picklable test_env j" "\<not> picklable unpicklable_env j" for j
    by (simp_all add: test_env_def unpicklable_env_def)
  have g1: "get_job (jobs test_state) ''job1'' \<noteq> None"
    by (simp add: test_state_job)
  have g2: "get_job (jobs test_state) ''job2'' = None"
    by (simp add: test_state_def initial_def get_job_def test_job_def)
  have js: "jobs test_state = [test_job]"
    by (simp add: test_state_def initial_def)
  have cw: "cron_wait test_env = (\<lambda>kw t. 79999)"
    by (simp add: test_env_def)
  have w1: "fst (addJob test_env RunVideoScrape (Some []) True ''cron'' None (Some [(''hourly'', ''1'')])
            (Some ''job2'') 100 test_state) = Inl (TypeError ''hourly'')"
    using add_job_unvalidated_target [OF a n2, where env = test_env and st = "''cron''" and iv = None
        and cr = "Some [(''hourly'', ''1'')]" and e = "TypeError ''hourly''" and f = RunVideoScrape
        and c = True and now = 100 and s = test_state] q
    by simp
  have w2: "fst (addJob unpicklable_env RunVideoScrape (Some []) True ''interval'' None None (Some ''job2'') 100 test_state)
       = Inl (TypeError ''cannot pickle'')"
    using add_job_unvalidated_target [OF a n2, where env = unpicklable_env and st = "''interval''" and iv = None
        and cr = None and tr = "IntervalTrigger 0 1 0 0 0" and f = RunVideoScrape
        and c = True and now = 100 and s = test_state] p pk
    by simp
  have w3: "fst (addJob test_env RunVideoScrape (Some []) True ''interval'' None None (Some ''job1'') 100 test_state)
       = Inl (ConflictingIdError ''job1'')"
    using add_job_unvalidated_target [OF a n1, where env = test_env and st = "''interval''" and iv = None
        and cr = None and tr = "IntervalTrigger 0 1 0 0 0" and f = RunVideoScrape
        and c = True and now = 100 and s = test_state] p pk g1
    by simp
  have w4: "fst (addJob test_env RunVideoScrape (Some []) True ''interval'' None None (Some ''job2'') 100 test_state)
       = Inr ''job2''
     \<and> jobs (snd (addJob test_env RunVideoScrape (Some []) True ''interval'' None None (Some ''job2'') 100 test_state))
       = [test_job, \<lparr>jobid = ''job2'', func = RunVideoScrape, args = (Some [], True),
                     name = ''Video Scrape: '', trigger = IntervalTrigger 0 1 0 0 0,
                     next_run_time = Some 86500, state = Active\<rparr>]"
    using add_job_unvalidated_target [OF a n2, where env = test_env and st = "''interval''" and iv = None
        and cr = None and tr = "IntervalTrigger 0 1 0 0 0" and f = RunVideoScrape
        and c = True and now = 100 and s = test_state] p pk g2
    by (simp add: js py_str_def)
  show ?thesis
    using a n1 n2 p [of test_env] q w1 w2 g1 w3 g2 w4 by blast
qed

section \<open>Listing the jobs\<close>

lemma mset_scheduler_get_jobs: "mset (scheduler_get_jobs js) = mset js"
  by (simp add: scheduler_get_jobs_def)

text \<open>
  C9, as the claim states it, fails: the entries of \<open>list_jobs\<close> have the keys \<open>id\<close>,
  \<open>name\<close>, \<open>next_run_time\<close> and \<open>trigger\<close>, and neither an operation nor a target; the
  name renders the target, so two stores whose jobs differ in the target (a missing
  one, and the text \<open>None\<close>) are listed alike.
\<close>

theorem list_jobs_counterexample:
  "map (map fst) (list_jobs test_env test_state) = [[''id'', ''name'', ''next_run_time'', ''trigger'']]
   \<and> map_of (hd (list_jobs test_env test_state)) ''operation'' = None
   \<and> map_of (hd (list_jobs test_env test_state)) ''target'' = None
   \<and> list_jobs test_env (snd (schedule_channel_scrape test_env None False ''interval'' None None (Some ''job2'') 0 (initial 0)))
     = list_jobs test_env (snd (schedule_channel_scrape test_env (Some ''None'') False ''interval'' None None (Some ''job2'') 0 (initial 0)))
   \<and> map args (jobs (snd (schedule_channel_scrape test_env None False ''interval'' None None (Some ''job2'') 0 (initial 0))))
     \<noteq> map args (jobs (snd (schedule_channel_scrape test_env (Some ''None'') False ''interval'' None None (Some ''job2'') 0 (initial 0))))"
  by (simp add: list_jobs_def job_info_def scheduler_get_jobs_def test_state_def initial_def test_job_def
      schedule_channel_scrape_def parse_schedule_default py_not_def Let_def logger_info_def
      scheduler_add_job_def new_job_def get_job_def py_str_def test_env_def)

text \<open>
  C9, amended. For every store state, \<open>list_jobs\<close> returns one entry per stored job, and
  every entry holds exactly that job's id, its display name (the text built when the job
  was added, such as \<open>Channel Scrape: \<close> followed by the channel id), its next fire
  time rendered by \<open>strftime\<close> (\<open>None\<close> when the job has none) and the rendering of its
  trigger.
\<close>

theorem list_jobs_entries:
  "length (list_jobs env s) = length (jobs s)
   \<and> mset (list_jobs env s) = image_mset (job_info env) (mset (jobs s))
   \<and> map fst (job_info env j) = [''id'', ''name'', ''next_run_time'', ''trigger'']
   \<and> map_of (job_info env j) ''id'' = Some (Some (jobid j))
   \<and> map_of (job_info env j) ''name'' = Some (Some (name j))
   \<and> map_of (job_info env j) ''next_run_time''
       = Some (map_option (strftime env ''%Y-%m-%d %H:%M:%S'') (next_run_time j))
   \<and> map_of (job_info env j) ''trigger'' = Some (Some (trigger_str env (trigger j)))"
proof -
  have "mset (list_jobs env s) = image_mset (job_info env) (mset (scheduler_get_jobs (jobs s)))"
    by (simp add: list_jobs_def)
  then have m: "mset (list_jobs env s) = image_mset (job_info env) (mset (jobs s))"
    by (simp only: mset_scheduler_get_jobs)
  have l: "length (list_jobs env s) = length (jobs s)"
    by (simp add: list_jobs_def scheduler_get_jobs_def)
  show ?thesis
    using m l by (simp add: job_info_def)
qed

section \<open>Misfires\<close>




lemma jobs_reschedule:
  "jobs (reschedule env now j s) =
     (case get_job (jobs s) (jobid j) of
        None \<Rightarrow> jobs s
      | Some x \<Rightarrow> put (x\<lparr>next_run_time := Some (get_next_fire_time (cron_wait env) (trigger j) now)\<rparr>) (jobs s))"
  by (simp add: reschedule_def setNextFireTime_def split: option.splits)







section \<open>Invariants of the job store\<close>






















subsection \<open>Rescheduling\<close>







subsection \<open>Working through the due list\<close>

text \<open>
  Both ways of handling a due job, firing it to completion and dispatching it to the
  pool, change the store as rescheduling does; the lemmas on a list of due jobs are
  stated for any such step.
\<close>

lemma dispatch_job_jobs: "jobs (snd (dispatch_job env now j s)) = jobs (reschedule env now j s)"
proof -
  have "\<exists>s'. snd (dispatch_job env now j s) = reschedule env now j s' \<and> jobs s' = jobs s"
    by (auto simp: dispatch_job_def logger_warning_def split: option.splits)
  then obtain s' where "snd (dispatch_job env now j s) = reschedule env now j s'" "jobs s' = jobs s"
    by blast
  then show ?thesis
    using jobs_reschedule_cong [of s' s env now j] by simp
qed

lemma snd_fire_all_Cons:
  "snd (fire_all env now (d # ds) s) = snd (fire_all env now ds (snd (fire_job env now d s)))"
  by (simp split: prod.splits)

lemma snd_fire_all_fold:
  "snd (fire_all env now ds s) = fold (\<lambda>d s. snd (fire_job env now d s)) ds s"
proof (induction ds arbitrary: s)
  case Nil
  show ?case by simp
next
  case (Cons d ds)
  show ?case
    unfolding snd_fire_all_Cons Cons.IH by simp
qed








lemma finish_job_frame:
  "jobs (finish_job env j s) = jobs s \<and> inflight (finish_job env j s) i \<le> inflight s i"
proof (cases "inflight s (jobid j) = 0")
  case True
  then show ?thesis by (simp add: finish_job_def)
next
  case False
  obtain r s1 where c: "call_job_func env (func j) (args j) s = (r, s1)"
    by (cases "call_job_func env (func j) (args j) s")
  have fr: "jobs s1 = jobs s" "inflight s1 = inflight s"
    using call_job_func_frame [of env "func j" "args j" s] c by simp_all
  show ?thesis
    using False by (simp add: finish_job_def c fr Let_def job_done_def logger_error_def split: sum.splits)
qed

subsection \<open>Every operation keeps the store in order\<close>





section \<open>Paused jobs are never due\<close>









section \<open>Running instances of one job\<close>

lemma inflight_addJob_like:
  "inflight (snd (schedule_channel_scrape env t c st iv cr k now s)) = inflight s"
  "inflight (snd (schedule_video_scrape env t c st iv cr k now s)) = inflight s"
  "inflight (snd (schedule_playlist_scrape env t c st iv cr k now s)) = inflight s"
  "inflight (snd (schedule_search_scrape env t c st iv cr k now s)) = inflight s"
  by (simp_all add: schedule_channel_scrape_def schedule_video_scrape_def schedule_playlist_scrape_def
      schedule_search_scrape_def Let_def logger_info_def split: prod.splits sum.splits)

lemma inflight_control:
  "inflight (snd (remove_job i s)) = inflight s"
  "inflight (snd (pause_job i s)) = inflight s"
  "inflight (snd (resume_job env i now s)) = inflight s"
  by (simp_all add: remove_job_def pause_job_def resume_job_def logger_info_def logger_error_def
      split: sum.splits)

lemma inflight_run_job_now: "inflight (snd (run_job_now env i s)) = inflight s"
proof (cases "get_job (jobs s) i")
  case None
  then show ?thesis by (simp add: run_job_now_def logger_error_def)
next
  case (Some j)
  show ?thesis
    using call_job_func_frame [of env "func j" "args j" s]
    by (simp add: run_job_now_found [OF Some] logger_info_def)
qed

lemma inflight_tick: "inflight (snd (tick env now s)) = inflight s"
proof -
  have "inflight (fold (\<lambda>d s. snd (fire_job env now d s)) ds s) = inflight s" for ds
    by (induction ds arbitrary: s) (simp_all add: fire_job_inflight)
  then show ?thesis
    by (simp add: tick_def snd_fire_all_fold)
qed

lemma dispatch_job_inflight:
  "inflight (snd (dispatch_job env now j s)) =
     (if lateness now j \<le> misfire_grace_time \<and> inflight s (jobid j) < max_instances
      then (inflight s)(jobid j := Suc (inflight s (jobid j)))
      else inflight s)"
  by (simp add: dispatch_job_def submit_job_eligible reschedule_frame logger_warning_def)

lemma dispatch_job_bounded:
  assumes "\<forall>k. inflight s k \<le> max_instances"
  shows "\<forall>k. inflight (snd (dispatch_job env now j s)) k \<le> max_instances"
  using assms by (auto simp: dispatch_job_inflight)

lemma dispatch_all_bounded:
  "\<forall>k. inflight s k \<le> max_instances \<Longrightarrow> \<forall>k. inflight (dispatch_all env now ds s) k \<le> max_instances"
proof (induction ds arbitrary: s)
  case Nil
  then show ?case by simp
next
  case (Cons d ds)
  have "\<forall>k. inflight (snd (dispatch_job env now d s)) k \<le> max_instances"
    using Cons.prems by (rule dispatch_job_bounded)
  then have "\<forall>k. inflight (dispatch_all env now ds (snd (dispatch_job env now d s))) k \<le> max_instances"
    by (rule Cons.IH)
  then show ?case by simp
qed

lemma exec_op_bounded:
  assumes "\<forall>k. inflight s k \<le> max_instances"
  shows "\<forall>k. inflight (exec_op env now x s) k \<le> max_instances"
proof (cases x)
  case Dispatch
  show ?thesis
    using dispatch_all_bounded [OF assms] by (simp add: Dispatch)
next
  case (Finish j)
  show ?thesis
  proof
    fix k
    have "inflight (finish_job env j s) k \<le> inflight s k"
      using finish_job_frame [of env j s k] by simp
    then show "inflight (exec_op env now x s) k \<le> max_instances"
      using assms [rule_format, of k] by (simp add: Finish)
  qed
qed (use assms in \<open>simp_all add: inflight_addJob_like inflight_control inflight_run_job_now inflight_tick\<close>)

lemma exec_ops_bounded:
  "\<forall>k. inflight s k \<le> max_instances \<Longrightarrow> \<forall>k. inflight (exec_ops env xs s) k \<le> max_instances"
proof (induction xs arbitrary: s)
  case Nil
  then show ?case by simp
next
  case (Cons a xs)
  obtain now x where a: "a = (now, x)" by (cases a)
  have "\<forall>k. inflight (exec_op env now x s) k \<le> max_instances"
    using Cons.prems by (rule exec_op_bounded)
  then have "\<forall>k. inflight (exec_ops env xs (exec_op env now x s)) k \<le> max_instances"
    by (rule Cons.IH)
  then show ?case by (simp add: a)
qed

lemma reachable_bounded:
  assumes "reachable env s"
  shows "inflight s i \<le> max_instances"
proof -
  obtain w xs where s: "s = exec_ops env xs (initial w)"
    using assms unfolding reachable_def by blast
  have "\<forall>k. inflight (initial w) k \<le> max_instances"
    by (simp add: initial_def)
  then have "\<forall>k. inflight (exec_ops env xs (initial w)) k \<le> max_instances"
    by (rule exec_ops_bounded)
  then show ?thesis
    unfolding s by simp
qed

lemma exec_ops_append: "exec_ops env (xs @ ys) s = exec_ops env ys (exec_ops env xs s)"
  by (induction xs arbitrary: s) auto

lemma reachable_exec_ops: "reachable env s \<Longrightarrow> reachable env (exec_ops env xs s)"
  unfolding reachable_def by (metis exec_ops_append)

lemma skipped_at_bound:
  assumes "inflight s (jobid j) = max_instances" and "lateness now j \<le> misfire_grace_time"
  shows "dispatch_job env now j s = (False, reschedule env now j (s\<lparr>logged := logged s @ [skipped_message j]\<rparr>))"
    and "fire_job env now j s = (False, reschedule env now j (s\<lparr>logged := logged s @ [skipped_message j]\<rparr>))"
  using assms
  by (simp_all add: dispatch_job_def fire_job_def submit_job_def logger_warning_def skipped_message_def)

subsection \<open>The hourly job, dispatched three times\<close>

lemma dispatch_single:
  assumes "jobs s = [j]" and "state j = Active" and "next_run_time j = Some t" and "t \<le> now"
    and "now - t \<le> misfire_grace_time" and "inflight s (jobid j) < max_instances"
  shows "jobs (exec_op env now Dispatch s)
           = [j\<lparr>next_run_time := Some (get_next_fire_time (cron_wait env) (trigger j) now)\<rparr>]
         \<and> inflight (exec_op env now Dispatch s) = (inflight s)(jobid j := Suc (inflight s (jobid j)))"
proof -
  have due: "listDue now (jobs s) = [j]"
    using assms(1,2,3,4) by (simp add: listDue_def is_due_def)
  have late: "lateness now j \<le> misfire_grace_time"
    using assms(3,5) by (simp add: lateness_def)
  have "jobs (snd (dispatch_job env now j s))
          = [j\<lparr>next_run_time := Some (get_next_fire_time (cron_wait env) (trigger j) now)\<rparr>]"
    using assms(1) by (simp add: dispatch_job_jobs jobs_reschedule get_job_def)
  then show ?thesis
    using late assms(6) by (simp add: due dispatch_job_inflight)
qed

lemma jobs_test_added: "jobs test_added = [hourly_job 3600]" and inflight_test_added: "inflight test_added = (\<lambda>i. 0)"
proof -
  have p: "fst (priv_parse_schedule (cron_field_ok test_env) ''interval'' (Some [(''hours'', 1)]) None)
             = Inr (IntervalTrigger 0 0 1 0 0)"
    by (simp add: priv_parse_schedule_def py_not_def new_IntervalTrigger_def interval_units_def kwarg_def)
  have n: "''job1'' \<noteq> []" by simp
  show "jobs test_added = [hourly_job 3600]"
    using addJob_store_outcome [OF n p, of RunVideoScrape "Some ''v1''" True 0 "initial 0"]
    by (simp add: test_added_def scheduler_add_job_def jobid_new_job initial_def get_job_def test_env_def
        new_job_def hourly_job_def py_str_def)
  show "inflight test_added = (\<lambda>i. 0)"
    by (simp add: test_added_def inflight_addJob_like initial_def)
qed

lemma test_running1:
  "jobs test_running1 = [hourly_job 7200]" "inflight test_running1 = (\<lambda>i. 0)(''job1'' := Suc 0)"
  using dispatch_single [of test_added "hourly_job 3600" 3600 3600 test_env]
  by (simp_all add: test_running1_def jobs_test_added inflight_test_added hourly_job_def
      misfire_grace_time_def max_instances_def)

lemma test_running2:
  "jobs test_running2 = [hourly_job 10800]" "inflight test_running2 = (\<lambda>i. 0)(''job1'' := Suc (Suc 0))"
  using dispatch_single [of test_running1 "hourly_job 7200" 7200 7200 test_env]
  by (simp_all add: test_running2_def test_running1 hourly_job_def
      misfire_grace_time_def max_instances_def)

lemma test_running3:
  "jobs test_running3 = [hourly_job 14400]" "inflight test_running3 = (\<lambda>i. 0)(''job1'' := Suc (Suc (Suc 0)))"
  using dispatch_single [of test_running2 "hourly_job 10800" 10800 10800 test_env]
  by (simp_all add: test_running3_def test_running2 hourly_job_def
      misfire_grace_time_def max_instances_def)

lemma reachable_test_running3: "reachable test_env test_running3"
proof -
  have "reachable test_env test_added"
    unfolding reachable_def test_added_def by blast
  then show ?thesis
    unfolding test_running3_def test_running2_def test_running1_def
    by (intro reachable_exec_ops)
qed

text \<open>
  C4, as the claim states it, fails: \<open>_setup_scheduler\<close> sets \<open>max_instances\<close> to 3.
  The hourly job added at 0 is dispatched at 3600; when it is due again at 7200, with the
  first firing still running, the second fire is not skipped but dispatched as well, and
  two firings of the same id are in flight.
\<close>

theorem one_in_flight_counterexample:
  "inflight test_running1 ''job1'' = 1
   \<and> jobs test_running1 = [hourly_job 7200]
   \<and> fst (dispatch_job test_env 7200 (hourly_job 7200) test_running1) = True
   \<and> inflight test_running2 ''job1'' = 2"
proof -
  have "fst (dispatch_job test_env 7200 (hourly_job 7200) test_running1) = True"
    by (simp add: dispatch_job_def submit_job_def test_running1 lateness_def hourly_job_def
        misfire_grace_time_def max_instances_def)
  then show ?thesis
    by (simp add: test_running1 test_running2)
qed

text \<open>
  C4, amended. For every job id, at most \<open>max_instances = 3\<close> firings of that id are ever
  in flight at a time: a fire attempted while 3 previous firings of the same id are
  still running is skipped and logged, not queued and not run concurrently (the counts
  of running instances and the outside world stay as they are), whether the dispatcher
  leaves its firings running or waits for them.
\<close>

theorem max_instances_in_flight:
  assumes "reachable env s"
  shows "inflight s i \<le> max_instances
         \<and> max_instances = 3
         \<and> (inflight s (jobid j) = max_instances \<and> lateness now j \<le> misfire_grace_time \<longrightarrow>
              fst (dispatch_job env now j s) = False
              \<and> inflight (snd (dispatch_job env now j s)) = inflight s
              \<and> world (snd (dispatch_job env now j s)) = world s
              \<and> logged (snd (dispatch_job env now j s)) = logged s @ [skipped_message j]
              \<and> fst (fire_job env now j s) = False
              \<and> inflight (snd (fire_job env now j s)) = inflight s
              \<and> world (snd (fire_job env now j s)) = world s
              \<and> logged (snd (fire_job env now j s)) = logged s @ [skipped_message j])"
proof -
  have a: "inflight s i \<le> max_instances"
    using assms by (rule reachable_bounded)
  have b: "max_instances = 3"
    by (simp add: max_instances_def)
  have c: "fst (dispatch_job env now j s) = False
              \<and> inflight (snd (dispatch_job env now j s)) = inflight s
              \<and> world (snd (dispatch_job env now j s)) = world s
              \<and> logged (snd (dispatch_job env now j s)) = logged s @ [skipped_message j]
              \<and> fst (fire_job env now j s) = False
              \<and> inflight (snd (fire_job env now j s)) = inflight s
              \<and> world (snd (fire_job env now j s)) = world s
              \<and> logged (snd (fire_job env now j s)) = logged s @ [skipped_message j]"
    if "inflight s (jobid j) = max_instances" and "lateness now j \<le> misfire_grace_time"
    by (simp add: skipped_at_bound [OF that] reschedule_frame)
  show ?thesis
    using a b c by blast
qed

theorem max_instances_in_flight_witness:
  "reachable test_env test_running3
   \<and> inflight test_running3 (jobid (hourly_job 14400)) = max_instances
   \<and> lateness 14400 (hourly_job 14400) \<le> misfire_grace_time
   \<and> fst (dispatch_job test_env 14400 (hourly_job 14400) test_running3) = False
   \<and> inflight (snd (dispatch_job test_env 14400 (hourly_job 14400) test_running3)) ''job1'' = 3
   \<and> logged (snd (dispatch_job test_env 14400 (hourly_job 14400) test_running3))
       = logged test_running3 @ [skipped_message (hourly_job 14400)]"
proof -
  have a: "inflight test_running3 (jobid (hourly_job 14400)) = max_instances"
    by (simp add: test_running3 hourly_job_def max_instances_def)
  have l: "lateness 14400 (hourly_job 14400) \<le> misfire_grace_time"
    by (simp add: lateness_def hourly_job_def misfire_grace_time_def)
  have i: "inflight test_running3 ''job1'' = 3"
    by (simp add: test_running3)
  show ?thesis
    using max_instances_in_flight [OF reachable_test_running3, where j = "hourly_job 14400" and now = 14400]
      reachable_test_running3 a l i
    by simp
qed

end
